theory Spec2Isabelle
  imports Complex_Main "HOL-Library.Product_Lexorder" "HOL-Library.Multiset"
begin

section \<open>Data model of \<^verbatim>\<open>src/app.py\<close>\<close>

text \<open>
  A Python \<^verbatim>\<open>float\<close> is an IEEE binary64 value: a finite number, an infinity or NaN. A
  finite value is kept as the real number it denotes (the sign of zero is not kept).
  Comparison with zero and truth value are exact and are defined here. Addition,
  subtraction and the two summing routines round, each in its own way; they are parameters
  of the model, and nothing is assumed about them.
\<close>

datatype pyfloat = Finite real | PosInf | NegInf | NaN

text \<open>\<^verbatim>\<open>x <= 0\<close>, which is false for NaN.\<close>

fun le_zero :: "pyfloat \<Rightarrow> bool" where
  "le_zero (Finite x) = (x \<le> 0)"
| "le_zero NegInf = True"
| "le_zero PosInf = False"
| "le_zero NaN = False"

text \<open>\<^verbatim>\<open>not x\<close>: a float is false when it equals zero; NaN is true.\<close>

fun falsy :: "pyfloat \<Rightarrow> bool" where
  "falsy (Finite x) = (x = 0)"
| "falsy PosInf = False"
| "falsy NegInf = False"
| "falsy NaN = False"

text \<open>
  The three SQLAlchemy models. Every column is \<^verbatim>\<open>nullable=False\<close>, so a stored row holds
  a value in each field. The primary keys \<^verbatim>\<open>User.id\<close>, \<^verbatim>\<open>Expense.id\<close> and
  \<^verbatim>\<open>Income.id\<close> are the fields \<open>uid\<close> and \<open>tid\<close> (the name \<open>id\<close> is HOL's identity
  function); \<^verbatim>\<open>User.created_at\<close> is \<open>registered_at\<close>. \<^verbatim>\<open>Expense\<close> and \<^verbatim>\<open>Income\<close>
  declare the same columns and share the record \<open>txn\<close>; they live in two tables. The
  amount is a \<^verbatim>\<open>db.Float\<close> column. Column length limits are not modelled (the default
  store, SQLite, has none).
\<close>

record date =
  year :: int
  month :: int
  day :: int

record user =
  uid :: nat
  username :: string
  email :: string
  password_hash :: string
  registered_at :: nat

record txn =
  tid :: nat
  user_id :: nat
  description :: string
  amount :: pyfloat
  category :: string
  date :: date
  created_at :: nat

record store =
  user_tbl :: "user list"
  expense_tbl :: "txn list"
  income_tbl :: "txn list"

text \<open>
  What the handlers call and do not define. All of it is a parameter of the model:
  \<^item> \<open>py_float s\<close> is \<^verbatim>\<open>float(s)\<close> on a string; \<open>None\<close> stands for \<^verbatim>\<open>ValueError\<close>;
  \<^item> \<open>strptime_ymd s\<close> is \<^verbatim>\<open>datetime.strptime(s, '%Y-%m-%d').date()\<close>; \<open>None\<close> stands for
    \<^verbatim>\<open>ValueError\<close>;
  \<^item> \<open>generate_password_hash\<close> and \<open>check_password_hash\<close> are werkzeug's;
  \<^item> \<open>f_add\<close> and \<open>f_sub\<close> are \<^verbatim>\<open>+\<close> and \<^verbatim>\<open>-\<close> on floats, \<open>py_sum\<close> is the builtin
    \<^verbatim>\<open>sum\<close> on a sequence of floats;
  \<^item> \<open>db_sum xs\<close> is what the store's \<^verbatim>\<open>SUM\<close> gives on the rows \<open>xs\<close> when there is at
    least one; \<open>None\<close> is SQL's \<^verbatim>\<open>NULL\<close>;
  \<^item> \<open>db_binds_int i\<close> says that the store's driver accepts the integer \<open>i\<close> as a query
    parameter; it raises \<^verbatim>\<open>OverflowError\<close> otherwise;
  \<^item> \<open>db_null_float x\<close> says that the driver writes the float \<open>x\<close> as \<^verbatim>\<open>NULL\<close>, so that
    the commit of a row with this amount violates \<^verbatim>\<open>nullable=False\<close>.
  The store is chosen by \<^verbatim>\<open>DATABASE_URL\<close>; the default is SQLite, whose driver binds the
  signed 64-bit integers and writes NaN as \<^verbatim>\<open>NULL\<close>.
\<close>

record env =
  py_float :: "string \<Rightarrow> pyfloat option"
  strptime_ymd :: "string \<Rightarrow> date option"
  generate_password_hash :: "string \<Rightarrow> string"
  check_password_hash :: "string \<Rightarrow> string \<Rightarrow> bool"
  f_add :: "pyfloat \<Rightarrow> pyfloat \<Rightarrow> pyfloat"
  f_sub :: "pyfloat \<Rightarrow> pyfloat \<Rightarrow> pyfloat"
  py_sum :: "pyfloat list \<Rightarrow> pyfloat"
  db_sum :: "pyfloat list \<Rightarrow> pyfloat option"
  db_binds_int :: "int \<Rightarrow> bool"
  db_null_float :: "pyfloat \<Rightarrow> bool"

text \<open>
  What a handler answers. A flash message is its category and its text; the texts of the
  source are in Portuguese and are named here by their meaning. \<open>Abort404\<close> is the abort
  of \<^verbatim>\<open>get_or_404\<close>. \<open>Unhandled e\<close> is an exception that no \<^verbatim>\<open>except\<close> clause of the
  handler catches; Flask answers it with status 500, and the request's database session is
  discarded without a commit.
\<close>

datatype flash_category = Success | Danger | Info | Message

datatype flash_text =
    Login_ok | Bad_credentials | Passwords_differ | Email_taken | Username_taken
  | Account_created | Logged_out | Please_log_in
  | All_fields_required | Amount_not_positive | Invalid_value_or_date
  | Record_added | Record_deleted | Record_updated
  | No_permission_delete | No_permission_edit

type_synonym flash = "flash_category \<times> flash_text"

datatype route =
    R_login | R_register | R_dashboard | R_logout
  | R_expenses | R_expenses_add | R_expenses_delete | R_expenses_edit
  | R_incomes | R_incomes_add | R_incomes_delete | R_incomes_edit
  | R_financial_dashboard

datatype target = To_login | To_login_next route | To_dashboard | To_expenses | To_incomes
  | To_url string

datatype exn = TypeError | AttributeError | IntegrityError | OverflowError

record month_entry =
  m_month :: int
  m_month_name :: string
  m_expenses :: pyfloat
  m_incomes :: pyfloat
  m_balance :: pyfloat

record year_entry =
  y_year :: int
  y_expenses :: pyfloat
  y_incomes :: pyfloat
  y_balance :: pyfloat

record dashboard_ctx =
  c_monthly_data :: "month_entry list"
  c_yearly_data :: "year_entry list"
  c_expense_categories :: "(string \<times> pyfloat) list"
  c_income_categories :: "(string \<times> pyfloat) list"
  c_total_expenses :: pyfloat
  c_total_incomes :: pyfloat
  c_total_balance :: pyfloat
  c_selected_year :: int
  c_current_year :: int

datatype page =
    Login_html
  | Register_html
  | Dashboard_html string
  | Expenses_html "txn list" pyfloat "(string \<times> pyfloat) list"
  | Incomes_html "txn list" pyfloat "(string \<times> pyfloat) list"
  | Financial_dashboard_html dashboard_ctx

datatype response =
    Redirect target "flash list"
  | Render page "flash list"
  | Abort404
  | Unhandled exn

text \<open>
  \<^verbatim>\<open>request.form.get(k)\<close> is \<open>None\<close> when the form has no field \<open>k\<close>.
\<close>

record txn_form =
  f_description :: "string option"
  f_amount :: "string option"
  f_category :: "string option"
  f_date :: "string option"

record register_form =
  f_username :: "string option"
  f_email :: "string option"
  f_password :: "string option"
  f_confirm_password :: "string option"

record login_form =
  l_email :: "string option"
  l_password :: "string option"
  l_next :: "string option"

datatype http_method = GET | POST

section \<open>The store's queries\<close>

text \<open>
  \<^verbatim>\<open>load_user\<close> looks the session's id up; the id was put there by \<^verbatim>\<open>login_user\<close> and is
  a key of the store. A key that the store assigns to a new row is one more than the
  largest in the table.
\<close>

definition get_user :: "user list \<Rightarrow> nat \<Rightarrow> user option" where
  "get_user us i = find (\<lambda>u. uid u = i) us"

definition new_key :: "nat list \<Rightarrow> nat" where
  "new_key ks = Suc (foldr max ks 0)"

text \<open>
  \<^verbatim>\<open>Model.query.get_or_404(id)\<close> on the id of the URL, which \<^verbatim>\<open><int:id>\<close> takes from any
  string of digits: the driver binds the id or raises; then the row with that primary key
  is returned, or the request is aborted with 404.
\<close>

definition get_or_404 :: "env \<Rightarrow> txn list \<Rightarrow> nat \<Rightarrow> response + txn" where
  "get_or_404 ev ts i =
     (if db_binds_int ev (int i) then
        (case find (\<lambda>t. tid t = i) ts of None \<Rightarrow> Inl Abort404 | Some t \<Rightarrow> Inr t)
      else Inl (Unhandled OverflowError))"

text \<open>\<^verbatim>\<open>session.delete(row)\<close> and the update of a row's columns, both by primary key.\<close>

definition delete_txn :: "txn list \<Rightarrow> nat \<Rightarrow> txn list" where
  "delete_txn ts i = filter (\<lambda>t. tid t \<noteq> i) ts"

definition update_txn :: "txn list \<Rightarrow> nat \<Rightarrow> string \<Rightarrow> pyfloat \<Rightarrow> string \<Rightarrow> date \<Rightarrow> txn list" where
  "update_txn ts i d a c dt =
     map (\<lambda>t. if tid t = i then t\<lparr>description := d, amount := a, category := c, date := dt\<rparr>
               else t) ts"

text \<open>
  \<^verbatim>\<open>func.sum\<close> over no rows is SQL's \<^verbatim>\<open>NULL\<close>, which \<^verbatim>\<open>.scalar()\<close> returns as
  \<^verbatim>\<open>None\<close>; \<^verbatim>\<open>x or 0\<close> replaces \<^verbatim>\<open>None\<close> and a zero sum by \<open>0\<close>, which \<^verbatim>\<open>float\<close> then
  turns into \<open>0.0\<close>.
\<close>

definition sql_sum :: "env \<Rightarrow> pyfloat list \<Rightarrow> pyfloat option" where
  "sql_sum ev xs = (if xs = [] then None else db_sum ev xs)"

definition or_0 :: "pyfloat option \<Rightarrow> pyfloat" where
  "or_0 r = (case r of None \<Rightarrow> Finite 0 | Some v \<Rightarrow> if falsy v then Finite 0 else v)"

text \<open>
  \<^verbatim>\<open>incomes_sum - expenses_sum\<close>. After \<^verbatim>\<open>or 0\<close> a sum that is zero is the integer 0,
  here \<open>Finite 0\<close>. The difference of two integers 0 is 0; every other difference is a
  subtraction of floats, for which Python turns an integer 0 into \<^verbatim>\<open>0.0\<close> first.
\<close>

definition minus_sums :: "env \<Rightarrow> pyfloat \<Rightarrow> pyfloat \<Rightarrow> pyfloat" where
  "minus_sums ev a b = (if a = Finite 0 \<and> b = Finite 0 then Finite 0 else f_sub ev a b)"

text \<open>
  A query \<^verbatim>\<open>db.session.query(func.sum(amount)).filter(...).scalar()\<close> whose filter
  compares the year of the date with the integer \<open>y\<close> of the request. The other integers
  it binds are the user's id, a key of the store, and a month from 1 to 12.
\<close>

definition sum_query :: "env \<Rightarrow> int \<Rightarrow> (txn \<Rightarrow> bool) \<Rightarrow> txn list \<Rightarrow> exn + pyfloat option" where
  "sum_query ev y keep ts =
     (if db_binds_int ev y then Inr (sql_sum ev (map amount (filter keep ts)))
      else Inl OverflowError)"

text \<open>
  \<^verbatim>\<open>query(category, func.sum(amount)).filter(...).group_by(category).all()\<close>: one pair per
  category that occurs, in the order of first occurrence (SQL leaves the order open). The
  dict comprehension \<^verbatim>\<open>{cat: float(amount) for cat, amount in rows}\<close> raises \<^verbatim>\<open>TypeError\<close>
  on a sum that is \<^verbatim>\<open>NULL\<close>.
\<close>

definition group_sum_by_category :: "env \<Rightarrow> txn list \<Rightarrow> (string \<times> pyfloat option) list" where
  "group_sum_by_category ev ts =
     map (\<lambda>c. (c, sql_sum ev (map amount (filter (\<lambda>t. category t = c) ts))))
         (remdups (map category ts))"

definition group_query :: "env \<Rightarrow> int \<Rightarrow> (txn \<Rightarrow> bool) \<Rightarrow> txn list \<Rightarrow> exn + (string \<times> pyfloat option) list" where
  "group_query ev y keep ts =
     (if db_binds_int ev y then Inr (group_sum_by_category ev (filter keep ts))
      else Inl OverflowError)"

fun float_values :: "(string \<times> pyfloat option) list \<Rightarrow> exn + (string \<times> pyfloat) list" where
  "float_values [] = Inr []"
| "float_values ((c, None) # rows) = Inl TypeError"
| "float_values ((c, Some a) # rows) =
     (case float_values rows of Inl e \<Rightarrow> Inl e | Inr kvs \<Rightarrow> Inr ((c, a) # kvs))"

text \<open>
  \<^verbatim>\<open>order_by(date.desc())\<close>: sorted by date, latest first; rows of one date keep the
  table's order.
\<close>

definition desc_key :: "date \<Rightarrow> int \<times> int \<times> int" where
  "desc_key d = (- year d, - month d, - day d)"

definition order_by_date_desc :: "txn list \<Rightarrow> txn list" where
  "order_by_date_desc ts = sort_key (\<lambda>t. desc_key (date t)) ts"

section \<open>Session and accounts\<close>

text \<open>
  The session cookie holds a user id or nothing. \<^verbatim>\<open>current_user\<close> is what
  \<^verbatim>\<open>load_user\<close> finds for it; \<open>None\<close> is the anonymous user. \<^verbatim>\<open>@login_required\<close>
  runs the handler for an authenticated user and otherwise flashes
  \<^verbatim>\<open>login_manager.login_message\<close> and redirects to \<^verbatim>\<open>login_view\<close>, keeping the requested
  route as \<^verbatim>\<open>next\<close>.
\<close>

definition current_user :: "store \<Rightarrow> nat option \<Rightarrow> user option" where
  "current_user st sess = (case sess of None \<Rightarrow> None | Some i \<Rightarrow> get_user (user_tbl st) i)"

definition login_required :: "route \<Rightarrow> store \<Rightarrow> nat option \<Rightarrow> (user \<Rightarrow> 'a) \<Rightarrow> (response \<Rightarrow> 'a) \<Rightarrow> 'a" where
  "login_required r st sess handler refuse =
     (case current_user st sess of
        None \<Rightarrow> refuse (Redirect (To_login_next r) [(Message, Please_log_in)])
      | Some u \<Rightarrow> handler u)"

definition index :: "store \<Rightarrow> nat option \<Rightarrow> response" where
  "index st sess =
     (case current_user st sess of Some u \<Rightarrow> Redirect To_dashboard [] | None \<Rightarrow> Redirect To_login [])"

text \<open>
  \<^verbatim>\<open>login\<close> returns the response and the session. A \<^verbatim>\<open>password\<close> field that is missing
  reaches werkzeug as \<^verbatim>\<open>None\<close>, which raises there. \<open>l_next\<close> is the query parameter
  \<^verbatim>\<open>next\<close>; the \<^verbatim>\<open>remember\<close> field only sets the lifetime of the cookie and is left out.
\<close>

definition login :: "env \<Rightarrow> store \<Rightarrow> nat option \<Rightarrow> http_method \<Rightarrow> login_form \<Rightarrow> response \<times> nat option" where
  "login ev st sess meth form =
     (case current_user st sess of
        Some u \<Rightarrow> (Redirect To_dashboard [], sess)
      | None \<Rightarrow>
          if meth = POST then
            (case find (\<lambda>u. Some (email u) = l_email form) (user_tbl st) of
               None \<Rightarrow> (Render Login_html [(Danger, Bad_credentials)], sess)
             | Some u \<Rightarrow>
                 (case l_password form of
                    None \<Rightarrow> (Unhandled AttributeError, sess)
                  | Some p \<Rightarrow>
                      if check_password_hash ev (password_hash u) p then
                        (Redirect (case l_next form of
                                     None \<Rightarrow> To_dashboard
                                   | Some n \<Rightarrow> if n = [] then To_dashboard else To_url n)
                                  [(Success, Login_ok)],
                         Some (uid u))
                      else (Render Login_html [(Danger, Bad_credentials)], sess)))
          else (Render Login_html [], sess))"

text \<open>
  \<^verbatim>\<open>register\<close> returns the response and the store. The three checks come in the source's
  order: the two passwords, then the email, then the username.
\<close>

definition register :: "env \<Rightarrow> nat \<Rightarrow> store \<Rightarrow> nat option \<Rightarrow> http_method \<Rightarrow> register_form \<Rightarrow> response \<times> store" where
  "register ev now st sess meth form =
     (case current_user st sess of
        Some u \<Rightarrow> (Redirect To_dashboard [], st)
      | None \<Rightarrow>
          if meth = POST then
            if f_password form \<noteq> f_confirm_password form then
              (Render Register_html [(Danger, Passwords_differ)], st)
            else if find (\<lambda>u. Some (email u) = f_email form) (user_tbl st) \<noteq> None then
              (Render Register_html [(Danger, Email_taken)], st)
            else if find (\<lambda>u. Some (username u) = f_username form) (user_tbl st) \<noteq> None then
              (Render Register_html [(Danger, Username_taken)], st)
            else
              (case f_password form of
                 None \<Rightarrow> (Unhandled AttributeError, st)
               | Some p \<Rightarrow>
                   (case (f_username form, f_email form) of
                      (Some n, Some e) \<Rightarrow>
                        (Redirect To_login [(Success, Account_created)],
                         st\<lparr>user_tbl := user_tbl st @
                              [\<lparr>uid = new_key (map uid (user_tbl st)), username = n, email = e,
                                password_hash = generate_password_hash ev p,
                                registered_at = now\<rparr>]\<rparr>)
                    | _ \<Rightarrow> (Unhandled IntegrityError, st)))
          else (Render Register_html [], st))"

definition dashboard :: "user \<Rightarrow> response" where
  "dashboard u = Render (Dashboard_html (username u)) []"

definition logout :: "user \<Rightarrow> response \<times> nat option" where
  "logout u = (Redirect To_login [(Info, Logged_out)], None)"

section \<open>Expenses\<close>

text \<open>Python's \<^verbatim>\<open>not x\<close> on a form field: the field is missing or empty.\<close>

definition blank :: "string option \<Rightarrow> bool" where
  "blank x = (case x of None \<Rightarrow> True | Some s \<Rightarrow> s = [])"

text \<open>The loop that totals a listing by category in a dict.\<close>

fun add_to_category :: "env \<Rightarrow> (string \<times> pyfloat) list \<Rightarrow> string \<Rightarrow> pyfloat \<Rightarrow> (string \<times> pyfloat) list" where
  "add_to_category ev [] c a = [(c, a)]"
| "add_to_category ev ((k, v) # kvs) c a =
     (if k = c then (k, f_add ev v a) # kvs else (k, v) # add_to_category ev kvs c a)"

definition categories_of :: "env \<Rightarrow> txn list \<Rightarrow> (string \<times> pyfloat) list" where
  "categories_of ev ts = foldl (\<lambda>cats t. add_to_category ev cats (category t) (amount t)) [] ts"

definition expenses :: "env \<Rightarrow> store \<Rightarrow> user \<Rightarrow> response" where
  "expenses ev st u =
     (let user_expenses = order_by_date_desc (filter (\<lambda>t. user_id t = uid u) (expense_tbl st));
          total = py_sum ev (map amount user_expenses);
          categories = categories_of ev user_expenses
      in Render (Expenses_html user_expenses total categories) [])"

text \<open>
  \<^verbatim>\<open>add_expense\<close> catches \<^verbatim>\<open>ValueError\<close> only. When the driver writes the amount as
  \<^verbatim>\<open>NULL\<close>, the commit raises \<^verbatim>\<open>IntegrityError\<close> and nothing is inserted.
\<close>

definition add_expense :: "env \<Rightarrow> nat \<Rightarrow> store \<Rightarrow> user \<Rightarrow> txn_form \<Rightarrow> response \<times> store" where
  "add_expense ev now st u form =
     (if blank (f_description form) \<or> blank (f_amount form) \<or> blank (f_category form)
         \<or> blank (f_date form)
      then (Redirect To_expenses [(Danger, All_fields_required)], st)
      else
        (case (f_description form, f_amount form, f_category form, f_date form) of
           (Some d, Some a, Some c, Some ds) \<Rightarrow>
             (case py_float ev a of
                None \<Rightarrow> (Redirect To_expenses [(Danger, Invalid_value_or_date)], st)
              | Some v \<Rightarrow>
                  if le_zero v then (Redirect To_expenses [(Danger, Amount_not_positive)], st)
                  else
                    (case strptime_ymd ev ds of
                       None \<Rightarrow> (Redirect To_expenses [(Danger, Invalid_value_or_date)], st)
                     | Some dt \<Rightarrow>
                         if db_null_float ev v then (Unhandled IntegrityError, st)
                         else
                           (Redirect To_expenses [(Success, Record_added)],
                            st\<lparr>expense_tbl := expense_tbl st @
                                 [\<lparr>tid = new_key (map tid (expense_tbl st)), user_id = uid u,
                                   description = d, amount = v, category = c, date = dt,
                                   created_at = now\<rparr>]\<rparr>)))
         | _ \<Rightarrow> (Redirect To_expenses [(Danger, All_fields_required)], st)))"

definition delete_expense :: "env \<Rightarrow> store \<Rightarrow> user \<Rightarrow> nat \<Rightarrow> response \<times> store" where
  "delete_expense ev st u i =
     (case get_or_404 ev (expense_tbl st) i of
        Inl r \<Rightarrow> (r, st)
      | Inr expense \<Rightarrow>
          if user_id expense \<noteq> uid u then
            (Redirect To_expenses [(Danger, No_permission_delete)], st)
          else
            (Redirect To_expenses [(Success, Record_deleted)],
             st\<lparr>expense_tbl := delete_txn (expense_tbl st) i\<rparr>))"

text \<open>
  \<^verbatim>\<open>edit_expense\<close> assigns the four columns inside \<^verbatim>\<open>try\<close> and catches only
  \<^verbatim>\<open>ValueError\<close>. \<^verbatim>\<open>float(None)\<close> and \<^verbatim>\<open>strptime(None, ...)\<close> raise \<^verbatim>\<open>TypeError\<close>;
  a \<^verbatim>\<open>None\<close>, or an amount that the driver writes as \<^verbatim>\<open>NULL\<close>, in a column that is not
  nullable fails at the commit. Whenever the commit is not reached or fails, the
  assignments made so far are lost with the request's session.
\<close>

definition edit_expense :: "env \<Rightarrow> store \<Rightarrow> user \<Rightarrow> nat \<Rightarrow> txn_form \<Rightarrow> response \<times> store" where
  "edit_expense ev st u i form =
     (case get_or_404 ev (expense_tbl st) i of
        Inl r \<Rightarrow> (r, st)
      | Inr expense \<Rightarrow>
          if user_id expense \<noteq> uid u then
            (Redirect To_expenses [(Danger, No_permission_edit)], st)
          else
            (case f_amount form of
               None \<Rightarrow> (Unhandled TypeError, st)
             | Some a \<Rightarrow>
                 (case py_float ev a of
                    None \<Rightarrow> (Redirect To_expenses [(Danger, Invalid_value_or_date)], st)
                  | Some v \<Rightarrow>
                      (case f_date form of
                         None \<Rightarrow> (Unhandled TypeError, st)
                       | Some ds \<Rightarrow>
                           (case strptime_ymd ev ds of
                              None \<Rightarrow> (Redirect To_expenses [(Danger, Invalid_value_or_date)], st)
                            | Some dt \<Rightarrow>
                                (case (f_description form, f_category form) of
                                   (Some d, Some c) \<Rightarrow>
                                     if db_null_float ev v then (Unhandled IntegrityError, st)
                                     else
                                       (Redirect To_expenses [(Success, Record_updated)],
                                        st\<lparr>expense_tbl := update_txn (expense_tbl st) i d v c dt\<rparr>)
                                 | _ \<Rightarrow> (Unhandled IntegrityError, st)))))))"

section \<open>Incomes\<close>

text \<open>The four income handlers are the expense handlers on the other table.\<close>

definition incomes :: "env \<Rightarrow> store \<Rightarrow> user \<Rightarrow> response" where
  "incomes ev st u =
     (let user_incomes = order_by_date_desc (filter (\<lambda>t. user_id t = uid u) (income_tbl st));
          total = py_sum ev (map amount user_incomes);
          categories = categories_of ev user_incomes
      in Render (Incomes_html user_incomes total categories) [])"

definition add_income :: "env \<Rightarrow> nat \<Rightarrow> store \<Rightarrow> user \<Rightarrow> txn_form \<Rightarrow> response \<times> store" where
  "add_income ev now st u form =
     (if blank (f_description form) \<or> blank (f_amount form) \<or> blank (f_category form)
         \<or> blank (f_date form)
      then (Redirect To_incomes [(Danger, All_fields_required)], st)
      else
        (case (f_description form, f_amount form, f_category form, f_date form) of
           (Some d, Some a, Some c, Some ds) \<Rightarrow>
             (case py_float ev a of
                None \<Rightarrow> (Redirect To_incomes [(Danger, Invalid_value_or_date)], st)
              | Some v \<Rightarrow>
                  if le_zero v then (Redirect To_incomes [(Danger, Amount_not_positive)], st)
                  else
                    (case strptime_ymd ev ds of
                       None \<Rightarrow> (Redirect To_incomes [(Danger, Invalid_value_or_date)], st)
                     | Some dt \<Rightarrow>
                         if db_null_float ev v then (Unhandled IntegrityError, st)
                         else
                           (Redirect To_incomes [(Success, Record_added)],
                            st\<lparr>income_tbl := income_tbl st @
                                 [\<lparr>tid = new_key (map tid (income_tbl st)), user_id = uid u,
                                   description = d, amount = v, category = c, date = dt,
                                   created_at = now\<rparr>]\<rparr>)))
         | _ \<Rightarrow> (Redirect To_incomes [(Danger, All_fields_required)], st)))"

definition delete_income :: "env \<Rightarrow> store \<Rightarrow> user \<Rightarrow> nat \<Rightarrow> response \<times> store" where
  "delete_income ev st u i =
     (case get_or_404 ev (income_tbl st) i of
        Inl r \<Rightarrow> (r, st)
      | Inr income \<Rightarrow>
          if user_id income \<noteq> uid u then
            (Redirect To_incomes [(Danger, No_permission_delete)], st)
          else
            (Redirect To_incomes [(Success, Record_deleted)],
             st\<lparr>income_tbl := delete_txn (income_tbl st) i\<rparr>))"

definition edit_income :: "env \<Rightarrow> store \<Rightarrow> user \<Rightarrow> nat \<Rightarrow> txn_form \<Rightarrow> response \<times> store" where
  "edit_income ev st u i form =
     (case get_or_404 ev (income_tbl st) i of
        Inl r \<Rightarrow> (r, st)
      | Inr income \<Rightarrow>
          if user_id income \<noteq> uid u then
            (Redirect To_incomes [(Danger, No_permission_edit)], st)
          else
            (case f_amount form of
               None \<Rightarrow> (Unhandled TypeError, st)
             | Some a \<Rightarrow>
                 (case py_float ev a of
                    None \<Rightarrow> (Redirect To_incomes [(Danger, Invalid_value_or_date)], st)
                  | Some v \<Rightarrow>
                      (case f_date form of
                         None \<Rightarrow> (Unhandled TypeError, st)
                       | Some ds \<Rightarrow>
                           (case strptime_ymd ev ds of
                              None \<Rightarrow> (Redirect To_incomes [(Danger, Invalid_value_or_date)], st)
                            | Some dt \<Rightarrow>
                                (case (f_description form, f_category form) of
                                   (Some d, Some c) \<Rightarrow>
                                     if db_null_float ev v then (Unhandled IntegrityError, st)
                                     else
                                       (Redirect To_incomes [(Success, Record_updated)],
                                        st\<lparr>income_tbl := update_txn (income_tbl st) i d v c dt\<rparr>)
                                 | _ \<Rightarrow> (Unhandled IntegrityError, st)))))))"

section \<open>The financial dashboard\<close>

definition month_names :: "string list" where
  "month_names = [''Jan'', ''Fev'', ''Mar'', ''Abr'', ''Mai'', ''Jun'',
                  ''Jul'', ''Ago'', ''Set'', ''Out'', ''Nov'', ''Dez'']"

text \<open>The filters of the monthly and of the yearly queries.\<close>

definition in_month :: "nat \<Rightarrow> int \<Rightarrow> int \<Rightarrow> txn \<Rightarrow> bool" where
  "in_month owner y m t = (user_id t = owner \<and> year (date t) = y \<and> month (date t) = m)"

definition in_year :: "nat \<Rightarrow> int \<Rightarrow> txn \<Rightarrow> bool" where
  "in_year owner y t = (user_id t = owner \<and> year (date t) = y)"

text \<open>
  The loop over \<^verbatim>\<open>range(1, 13)\<close>: two queries per month, then the entry is appended. An
  exception of a query ends the loop and the request.
\<close>

fun monthly_loop :: "env \<Rightarrow> store \<Rightarrow> user \<Rightarrow> int \<Rightarrow> int list \<Rightarrow> exn + month_entry list" where
  "monthly_loop ev st u selected_year [] = Inr []"
| "monthly_loop ev st u selected_year (m # ms) =
     (case sum_query ev selected_year (in_month (uid u) selected_year m) (expense_tbl st) of
        Inl e \<Rightarrow> Inl e
      | Inr expenses_scalar \<Rightarrow>
          (case sum_query ev selected_year (in_month (uid u) selected_year m) (income_tbl st) of
             Inl e \<Rightarrow> Inl e
           | Inr incomes_scalar \<Rightarrow>
               (let expenses_sum = or_0 expenses_scalar;
                    incomes_sum = or_0 incomes_scalar;
                    balance = minus_sums ev incomes_sum expenses_sum
                in case monthly_loop ev st u selected_year ms of
                     Inl e \<Rightarrow> Inl e
                   | Inr entries \<Rightarrow>
                       Inr (\<lparr>m_month = m, m_month_name = month_names ! nat (m - 1),
                             m_expenses = expenses_sum, m_incomes = incomes_sum,
                             m_balance = balance\<rparr> # entries))))"

definition monthly_data :: "env \<Rightarrow> store \<Rightarrow> user \<Rightarrow> int \<Rightarrow> exn + month_entry list" where
  "monthly_data ev st u selected_year = monthly_loop ev st u selected_year [1..12]"

text \<open>The loop over \<^verbatim>\<open>range(selected_year - 4, selected_year + 1)\<close>.\<close>

fun yearly_loop :: "env \<Rightarrow> store \<Rightarrow> user \<Rightarrow> int list \<Rightarrow> exn + year_entry list" where
  "yearly_loop ev st u [] = Inr []"
| "yearly_loop ev st u (y # ys) =
     (case sum_query ev y (in_year (uid u) y) (expense_tbl st) of
        Inl e \<Rightarrow> Inl e
      | Inr expenses_scalar \<Rightarrow>
          (case sum_query ev y (in_year (uid u) y) (income_tbl st) of
             Inl e \<Rightarrow> Inl e
           | Inr incomes_scalar \<Rightarrow>
               (let expenses_sum = or_0 expenses_scalar;
                    incomes_sum = or_0 incomes_scalar;
                    balance = minus_sums ev incomes_sum expenses_sum
                in case yearly_loop ev st u ys of
                     Inl e \<Rightarrow> Inl e
                   | Inr entries \<Rightarrow>
                       Inr (\<lparr>y_year = y, y_expenses = expenses_sum, y_incomes = incomes_sum,
                             y_balance = balance\<rparr> # entries))))"

definition yearly_data :: "env \<Rightarrow> store \<Rightarrow> user \<Rightarrow> int \<Rightarrow> exn + year_entry list" where
  "yearly_data ev st u selected_year = yearly_loop ev st u [selected_year - 4..selected_year]"

text \<open>
  \<open>year_arg\<close> is \<^verbatim>\<open>request.args.get('year', type=int)\<close>: \<open>None\<close> when the parameter is
  missing or is not an integer, and then the current year is selected. Python's integers
  are unbounded, and so is the selected year.
\<close>

definition financial_dashboard_ctx :: "env \<Rightarrow> store \<Rightarrow> user \<Rightarrow> int \<Rightarrow> int option \<Rightarrow> exn + dashboard_ctx" where
  "financial_dashboard_ctx ev st u current_year year_arg =
     (let selected_year = (case year_arg of None \<Rightarrow> current_year | Some y \<Rightarrow> y)
      in case monthly_data ev st u selected_year of
           Inl e \<Rightarrow> Inl e
         | Inr monthly \<Rightarrow>
       (case yearly_data ev st u selected_year of
           Inl e \<Rightarrow> Inl e
         | Inr yearly \<Rightarrow>
       (case group_query ev selected_year (in_year (uid u) selected_year) (expense_tbl st) of
           Inl e \<Rightarrow> Inl e
         | Inr expenses_by_category \<Rightarrow>
       (case float_values expenses_by_category of
           Inl e \<Rightarrow> Inl e
         | Inr expense_categories \<Rightarrow>
       (case group_query ev selected_year (in_year (uid u) selected_year) (income_tbl st) of
           Inl e \<Rightarrow> Inl e
         | Inr incomes_by_category \<Rightarrow>
       (case float_values incomes_by_category of
           Inl e \<Rightarrow> Inl e
         | Inr income_categories \<Rightarrow>
             (let total_expenses = py_sum ev (map m_expenses monthly);
                  total_incomes = py_sum ev (map m_incomes monthly);
                  total_balance = f_sub ev total_incomes total_expenses
              in Inr \<lparr>c_monthly_data = monthly, c_yearly_data = yearly,
                      c_expense_categories = expense_categories,
                      c_income_categories = income_categories,
                      c_total_expenses = total_expenses, c_total_incomes = total_incomes,
                      c_total_balance = total_balance, c_selected_year = selected_year,
                      c_current_year = current_year\<rparr>)))))))"

definition financial_dashboard :: "env \<Rightarrow> store \<Rightarrow> user \<Rightarrow> int \<Rightarrow> int option \<Rightarrow> response" where
  "financial_dashboard ev st u current_year year_arg =
     (case financial_dashboard_ctx ev st u current_year year_arg of
        Inl e \<Rightarrow> Unhandled e
      | Inr ctx \<Rightarrow> Render (Financial_dashboard_html ctx) [])"

section \<open>The application\<close>

text \<open>
  One request against the store and the session. The clock gives \<^verbatim>\<open>datetime.utcnow()\<close> as
  a time stamp and \<^verbatim>\<open>datetime.now().year\<close>. The routes under \<^verbatim>\<open>@login_required\<close> are
  the protected ones.
\<close>

datatype request =
    Get_index
  | Req_login http_method login_form
  | Req_register http_method register_form
  | Get_dashboard
  | Get_logout
  | Get_expenses
  | Post_expenses_add txn_form
  | Get_expenses_delete nat
  | Post_expenses_edit nat txn_form
  | Get_incomes
  | Post_incomes_add txn_form
  | Get_incomes_delete nat
  | Post_incomes_edit nat txn_form
  | Get_financial_dashboard "int option"

record clock =
  utcnow :: nat
  this_year :: int

fun handle :: "env \<Rightarrow> clock \<Rightarrow> request \<Rightarrow> store \<times> nat option \<Rightarrow> response \<times> store \<times> nat option" where
  "handle ev ck Get_index (st, sess) = (index st sess, st, sess)"
| "handle ev ck (Req_login meth form) (st, sess) =
     (case login ev st sess meth form of (r, sess') \<Rightarrow> (r, st, sess'))"
| "handle ev ck (Req_register meth form) (st, sess) =
     (case register ev (utcnow ck) st sess meth form of (r, st') \<Rightarrow> (r, st', sess))"
| "handle ev ck Get_dashboard (st, sess) =
     login_required R_dashboard st sess (\<lambda>u. (dashboard u, st, sess)) (\<lambda>r. (r, st, sess))"
| "handle ev ck Get_logout (st, sess) =
     login_required R_logout st sess
       (\<lambda>u. case logout u of (r, sess') \<Rightarrow> (r, st, sess')) (\<lambda>r. (r, st, sess))"
| "handle ev ck Get_expenses (st, sess) =
     login_required R_expenses st sess (\<lambda>u. (expenses ev st u, st, sess)) (\<lambda>r. (r, st, sess))"
| "handle ev ck (Post_expenses_add form) (st, sess) =
     login_required R_expenses_add st sess
       (\<lambda>u. case add_expense ev (utcnow ck) st u form of (r, st') \<Rightarrow> (r, st', sess))
       (\<lambda>r. (r, st, sess))"
| "handle ev ck (Get_expenses_delete i) (st, sess) =
     login_required R_expenses_delete st sess
       (\<lambda>u. case delete_expense ev st u i of (r, st') \<Rightarrow> (r, st', sess)) (\<lambda>r. (r, st, sess))"
| "handle ev ck (Post_expenses_edit i form) (st, sess) =
     login_required R_expenses_edit st sess
       (\<lambda>u. case edit_expense ev st u i form of (r, st') \<Rightarrow> (r, st', sess))
       (\<lambda>r. (r, st, sess))"
| "handle ev ck Get_incomes (st, sess) =
     login_required R_incomes st sess (\<lambda>u. (incomes ev st u, st, sess)) (\<lambda>r. (r, st, sess))"
| "handle ev ck (Post_incomes_add form) (st, sess) =
     login_required R_incomes_add st sess
       (\<lambda>u. case add_income ev (utcnow ck) st u form of (r, st') \<Rightarrow> (r, st', sess))
       (\<lambda>r. (r, st, sess))"
| "handle ev ck (Get_incomes_delete i) (st, sess) =
     login_required R_incomes_delete st sess
       (\<lambda>u. case delete_income ev st u i of (r, st') \<Rightarrow> (r, st', sess)) (\<lambda>r. (r, st, sess))"
| "handle ev ck (Post_incomes_edit i form) (st, sess) =
     login_required R_incomes_edit st sess
       (\<lambda>u. case edit_income ev st u i form of (r, st') \<Rightarrow> (r, st', sess))
       (\<lambda>r. (r, st, sess))"
| "handle ev ck (Get_financial_dashboard year_arg) (st, sess) =
     login_required R_financial_dashboard st sess
       (\<lambda>u. (financial_dashboard ev st u (this_year ck) year_arg, st, sess))
       (\<lambda>r. (r, st, sess))"

fun protected :: "request \<Rightarrow> bool" where
  "protected Get_index = False"
| "protected (Req_login meth form) = False"
| "protected (Req_register meth form) = False"
| "protected r = True"

section \<open>What the specification asks of a new record\<close>

text \<open>
  The inputs that the specification of \<open>addRecord\<close> rejects, in its words: a field is
  blank, the amount does not parse as a number or is not positive, or the date does not
  parse.
\<close>

definition rejected_input :: "env \<Rightarrow> txn_form \<Rightarrow> bool" where
  "rejected_input ev form =
     (blank (f_description form) \<or> blank (f_amount form) \<or> blank (f_category form)
      \<or> blank (f_date form)
      \<or> (case f_amount form of
            None \<Rightarrow> False
          | Some a \<Rightarrow> (case py_float ev a of None \<Rightarrow> True | Some v \<Rightarrow> le_zero v))
      \<or> (case f_date form of None \<Rightarrow> False | Some ds \<Rightarrow> strptime_ymd ev ds = None))"

section \<open>When the dashboard is produced\<close>

text \<open>
  The dashboard of a user for the year \<open>y\<close> is produced when no query raises and no
  category sum is \<^verbatim>\<open>NULL\<close>: the driver binds \<open>y\<close> and the four years before it, and
  \<^verbatim>\<open>SUM\<close> has a value for every category of the user's expenses and incomes of \<open>y\<close>.
\<close>

definition dashboard_available :: "env \<Rightarrow> store \<Rightarrow> user \<Rightarrow> int \<Rightarrow> bool" where
  "dashboard_available ev st u y =
     (list_all (db_binds_int ev) [y - 4..y]
      \<and> list_all (\<lambda>p. snd p \<noteq> None)
           (group_sum_by_category ev (filter (in_year (uid u) y) (expense_tbl st)))
      \<and> list_all (\<lambda>p. snd p \<noteq> None)
           (group_sum_by_category ev (filter (in_year (uid u) y) (income_tbl st))))"

section \<open>Sums that do not round\<close>

text \<open>
  A sum of floats is exact when every summand is finite and the result is the finite value
  of their sum as real numbers. For \<^verbatim>\<open>SUM\<close> this is asked of a selection with at least
  one row.
\<close>

fun is_finite :: "pyfloat \<Rightarrow> bool" where
  "is_finite (Finite x) = True"
| "is_finite PosInf = False"
| "is_finite NegInf = False"
| "is_finite NaN = False"

fun real_of :: "pyfloat \<Rightarrow> real" where
  "real_of (Finite x) = x"
| "real_of PosInf = 0"
| "real_of NegInf = 0"
| "real_of NaN = 0"

definition db_sum_exact :: "env \<Rightarrow> pyfloat list \<Rightarrow> bool" where
  "db_sum_exact ev xs =
     (list_all is_finite xs
      \<and> (xs = [] \<or> db_sum ev xs = Some (Finite (sum_list (map real_of xs)))))"

definition py_sum_exact :: "env \<Rightarrow> pyfloat list \<Rightarrow> bool" where
  "py_sum_exact ev xs =
     (list_all is_finite xs \<and> py_sum ev xs = Finite (sum_list (map real_of xs)))"

section \<open>What a user owns\<close>

text \<open>The rows of the two tables whose \<^verbatim>\<open>user_id\<close> is the user's.\<close>

definition owned_part :: "user \<Rightarrow> store \<Rightarrow> txn list \<times> txn list" where
  "owned_part u st =
     (filter (\<lambda>t. user_id t = uid u) (expense_tbl st),
      filter (\<lambda>t. user_id t = uid u) (income_tbl st))"

section \<open>Stored dates and reachable states\<close>

text \<open>
  A \<^verbatim>\<open>db.Date\<close> column holds calendar dates; of these only the range of the month matters
  below. The application starts on empty tables with no session and moves by requests.
\<close>

definition months_ok :: "store \<Rightarrow> bool" where
  "months_ok st =
     list_all (\<lambda>t. 1 \<le> month (date t) \<and> month (date t) \<le> 12) (expense_tbl st @ income_tbl st)"

inductive reachable :: "env \<Rightarrow> store \<times> nat option \<Rightarrow> bool" for ev :: env where
  start: "reachable ev (\<lparr>user_tbl = [], expense_tbl = [], income_tbl = []\<rparr>, None)"
| step: "reachable ev s \<Longrightarrow> reachable ev (snd (handle ev ck req s))"

section \<open>Sample data\<close>

text \<open>
  The default configuration at the values of the examples below.
  \<^item> \<open>binary64_add\<close> is the addition of binary64 values. On finite values it is given where
    the examples use it: the three sums listed are the ones that round (to the nearest
    value, as \<^verbatim>\<open>0.1 + 0.2\<close> gives \<^verbatim>\<open>0.30000000000000004\<close>, \<^verbatim>\<open>0.30000000000000004 + 0.3\<close>
    gives \<^verbatim>\<open>0.6000000000000001\<close> and \<^verbatim>\<open>0.5 + 0.1\<close> gives \<^verbatim>\<open>0.6\<close>); every other sum that the
    examples take is a binary64 value itself and is exact.
  \<^item> \<^verbatim>\<open>sum\<close> and \<^verbatim>\<open>SUM\<close> add from the left, starting at zero; SQLite gives \<^verbatim>\<open>NULL\<close> for
    a sum that is NaN.
  \<^item> The SQLite driver binds the signed 64-bit integers and writes NaN as \<^verbatim>\<open>NULL\<close>.
  \<^item> \<^verbatim>\<open>float\<close> is given at \<^verbatim>\<open>'12.50'\<close>, \<^verbatim>\<open>'-5'\<close>, \<^verbatim>\<open>'nan'\<close> and \<^verbatim>\<open>'inf'\<close>; every other
    string of the examples is a \<^verbatim>\<open>ValueError\<close>. The date is given at \<^verbatim>\<open>'2024-03-15'\<close>.
\<close>

definition binary64_neg :: "pyfloat \<Rightarrow> pyfloat" where
  "binary64_neg a = (case a of Finite x \<Rightarrow> Finite (- x) | PosInf \<Rightarrow> NegInf | NegInf \<Rightarrow> PosInf
                     | NaN \<Rightarrow> NaN)"

definition either_way :: "real \<Rightarrow> real \<Rightarrow> real \<Rightarrow> real \<Rightarrow> bool" where
  "either_way x y a b = ((x = a \<and> y = b) \<or> (x = b \<and> y = a))"

definition binary64_add :: "pyfloat \<Rightarrow> pyfloat \<Rightarrow> pyfloat" where
  "binary64_add a b =
     (case a of
        NaN \<Rightarrow> NaN
      | PosInf \<Rightarrow> (case b of NaN \<Rightarrow> NaN | NegInf \<Rightarrow> NaN | _ \<Rightarrow> PosInf)
      | NegInf \<Rightarrow> (case b of NaN \<Rightarrow> NaN | PosInf \<Rightarrow> NaN | _ \<Rightarrow> NegInf)
      | Finite x \<Rightarrow>
          (case b of
             NaN \<Rightarrow> NaN
           | PosInf \<Rightarrow> PosInf
           | NegInf \<Rightarrow> NegInf
           | Finite y \<Rightarrow>
               if either_way x y (3602879701896397 / 36028797018963968)
                                 (3602879701896397 / 18014398509481984)
               then Finite (1351079888211149 / 4503599627370496)
               else if either_way x y (1351079888211149 / 4503599627370496)
                                      (5404319552844595 / 18014398509481984)
               then Finite (1351079888211149 / 2251799813685248)
               else if either_way x y (1 / 2) (3602879701896397 / 36028797018963968)
               then Finite (5404319552844595 / 9007199254740992)
               else Finite (x + y)))"

definition sample_env :: env where
  "sample_env =
     \<lparr>py_float = (\<lambda>s. if s = ''12.50'' then Some (Finite (25 / 2))
                      else if s = ''-5'' then Some (Finite (- 5))
                      else if s = ''nan'' then Some NaN
                      else if s = ''inf'' then Some PosInf
                      else None),
      strptime_ymd = (\<lambda>s. if s = ''2024-03-15'' then Some \<lparr>year = 2024, month = 3, day = 15\<rparr>
                           else None),
      generate_password_hash = (\<lambda>p. ''salted:'' @ p),
      check_password_hash = (\<lambda>h p. h = ''salted:'' @ p),
      f_add = binary64_add,
      f_sub = (\<lambda>a b. binary64_add a (binary64_neg b)),
      py_sum = foldl binary64_add (Finite 0),
      db_sum = (\<lambda>xs. case foldl binary64_add (Finite 0) xs of NaN \<Rightarrow> None | s \<Rightarrow> Some s),
      db_binds_int = (\<lambda>i. - 9223372036854775808 \<le> i \<and> i < 9223372036854775808),
      db_null_float = (\<lambda>x. x = NaN)\<rparr>"

definition alice :: user where
  "alice = \<lparr>uid = 1, username = ''alice'', email = ''alice@example.org'',
            password_hash = ''salted:wonderland'', registered_at = 0\<rparr>"

definition bob :: user where
  "bob = \<lparr>uid = 2, username = ''bob'', email = ''bob@example.org'',
          password_hash = ''salted:builder'', registered_at = 1\<rparr>"

definition lunch :: txn where
  "lunch = \<lparr>tid = 1, user_id = 1, description = ''Lunch'', amount = Finite (25 / 2),
            category = ''Food'', date = \<lparr>year = 2024, month = 3, day = 15\<rparr>, created_at = 2\<rparr>"

definition rent :: txn where
  "rent = \<lparr>tid = 2, user_id = 2, description = ''Rent'', amount = Finite 700,
           category = ''Home'', date = \<lparr>year = 2024, month = 3, day = 1\<rparr>, created_at = 3\<rparr>"

definition salary :: txn where
  "salary = \<lparr>tid = 1, user_id = 1, description = ''Salary'', amount = Finite 2000,
             category = ''Job'', date = \<lparr>year = 2024, month = 1, day = 31\<rparr>, created_at = 4\<rparr>"

definition sample_store :: store where
  "sample_store = \<lparr>user_tbl = [alice, bob], expense_tbl = [lunch, rent], income_tbl = [salary]\<rparr>"

text \<open>
  Three expenses of alice, entered in this order: \<^verbatim>\<open>0.3\<close> in March, \<^verbatim>\<open>0.2\<close> in February
  and \<^verbatim>\<open>0.1\<close> in January of 2024, each the binary64 value nearest to the decimal.
\<close>

definition rounding_store :: store where
  "rounding_store =
     \<lparr>user_tbl = [alice],
      expense_tbl =
        [\<lparr>tid = 1, user_id = 1, description = ''Tea'',
          amount = Finite (5404319552844595 / 18014398509481984), category = ''Food'',
          date = \<lparr>year = 2024, month = 3, day = 10\<rparr>, created_at = 2\<rparr>,
         \<lparr>tid = 2, user_id = 1, description = ''Tea'',
          amount = Finite (3602879701896397 / 18014398509481984), category = ''Food'',
          date = \<lparr>year = 2024, month = 2, day = 10\<rparr>, created_at = 3\<rparr>,
         \<lparr>tid = 3, user_id = 1, description = ''Tea'',
          amount = Finite (3602879701896397 / 36028797018963968), category = ''Food'',
          date = \<lparr>year = 2024, month = 1, day = 10\<rparr>, created_at = 4\<rparr>],
      income_tbl = []\<rparr>"

definition lunch_form :: txn_form where
  "lunch_form = \<lparr>f_description = Some ''Lunch'', f_amount = Some ''12.50'',
                 f_category = Some ''Food'', f_date = Some ''2024-03-15''\<rparr>"

definition blank_amount_form :: txn_form where
  "blank_amount_form = \<lparr>f_description = Some ''Lunch'', f_amount = Some [],
                 f_category = Some ''Food'', f_date = Some ''2024-03-15''\<rparr>"

definition negative_amount_form :: txn_form where
  "negative_amount_form = \<lparr>f_description = Some ''Lunch'', f_amount = Some ''-5'',
                 f_category = Some ''Food'', f_date = Some ''2024-03-15''\<rparr>"

definition nan_amount_form :: txn_form where
  "nan_amount_form = \<lparr>f_description = Some ''Lunch'', f_amount = Some ''nan'',
                 f_category = Some ''Food'', f_date = Some ''2024-03-15''\<rparr>"

definition missing_amount_form :: txn_form where
  "missing_amount_form = \<lparr>f_description = Some ''Lunch'', f_amount = None,
                 f_category = Some ''Food'', f_date = Some ''2024-03-15''\<rparr>"

definition dup_email_form :: register_form where
  "dup_email_form = \<lparr>f_username = Some ''carol'', f_email = Some ''alice@example.org'',
     f_password = Some ''pw'', f_confirm_password = Some ''pw''\<rparr>"

definition dup_username_form :: register_form where
  "dup_username_form = \<lparr>f_username = Some ''bob'', f_email = Some ''carol@example.org'',
     f_password = Some ''pw'', f_confirm_password = Some ''pw''\<rparr>"

definition empty_register_form :: register_form where
  "empty_register_form = \<lparr>f_username = Some [], f_email = Some [],
     f_password = Some [], f_confirm_password = Some []\<rparr>"

definition sample_clock :: clock where
  "sample_clock = \<lparr>utcnow = 9, this_year = 2026\<rparr>"

section \<open>The monthly summary\<close>

text \<open>
  The two loops of the dashboard run to their end exactly when the driver binds every
  year they are given, and the dashboard is produced exactly when moreover no category
  sum is \<^verbatim>\<open>NULL\<close>.
\<close>

lemma monthly_loop_bound:
  assumes "db_binds_int ev y"
  shows "monthly_loop ev st u y ms =
     Inr (map (\<lambda>m. \<lparr>m_month = m, m_month_name = month_names ! nat (m - 1),
                     m_expenses = or_0 (sql_sum ev (map amount (filter (in_month (uid u) y m) (expense_tbl st)))),
                     m_incomes = or_0 (sql_sum ev (map amount (filter (in_month (uid u) y m) (income_tbl st)))),
                     m_balance = minus_sums ev
                       (or_0 (sql_sum ev (map amount (filter (in_month (uid u) y m) (income_tbl st)))))
                       (or_0 (sql_sum ev (map amount (filter (in_month (uid u) y m) (expense_tbl st)))))\<rparr>)
              ms)"
  using assms by (induction ms) (simp_all add: sum_query_def Let_def)

lemma monthly_loop_unbound:
  assumes "\<not> db_binds_int ev y" and "ms \<noteq> []"
  shows "monthly_loop ev st u y ms = Inl OverflowError"
  using assms by (cases ms) (simp_all add: sum_query_def)

lemma monthly_data_unbound:
  "\<not> db_binds_int ev y \<Longrightarrow> monthly_data ev st u y = Inl OverflowError"
proof -
  assume n: "\<not> db_binds_int ev y"
  have "[1..12] \<noteq> ([] :: int list)"
    by (simp add: upto_rec1)
  from monthly_loop_unbound [OF n this] show ?thesis
    by (simp only: monthly_data_def)
qed

lemma yearly_loop_bound:
  assumes "list_all (db_binds_int ev) ys"
  shows "yearly_loop ev st u ys =
     Inr (map (\<lambda>y. \<lparr>y_year = y,
                     y_expenses = or_0 (sql_sum ev (map amount (filter (in_year (uid u) y) (expense_tbl st)))),
                     y_incomes = or_0 (sql_sum ev (map amount (filter (in_year (uid u) y) (income_tbl st)))),
                     y_balance = minus_sums ev
                       (or_0 (sql_sum ev (map amount (filter (in_year (uid u) y) (income_tbl st)))))
                       (or_0 (sql_sum ev (map amount (filter (in_year (uid u) y) (expense_tbl st)))))\<rparr>)
              ys)"
  using assms by (induction ys) (simp_all add: sum_query_def Let_def)

lemma yearly_loop_unbound:
  assumes "\<not> list_all (db_binds_int ev) ys"
  shows "yearly_loop ev st u ys = Inl OverflowError"
  using assms by (induction ys) (auto simp: sum_query_def Let_def split: sum.splits)

lemma float_values_defined:
  assumes "list_all (\<lambda>p. snd p \<noteq> None) rows"
  shows "\<exists>kvs. float_values rows = Inr kvs"
  using assms by (induction rows rule: float_values.induct) auto

lemma float_values_null:
  assumes "\<not> list_all (\<lambda>p. snd p \<noteq> None) rows"
  shows "float_values rows = Inl TypeError"
  using assms by (induction rows rule: float_values.induct) auto

lemma dashboard_ctx_defined:
  assumes "dashboard_available ev st u (case ya of None \<Rightarrow> cy | Some y \<Rightarrow> y)"
  shows "\<exists>ctx. financial_dashboard_ctx ev st u cy ya = Inr ctx"
proof -
  let ?y = "case ya of None \<Rightarrow> cy | Some y \<Rightarrow> y"
  from assms have ys: "list_all (db_binds_int ev) [?y - 4..?y]"
    and e: "list_all (\<lambda>p. snd p \<noteq> None)
              (group_sum_by_category ev (filter (in_year (uid u) ?y) (expense_tbl st)))"
    and i: "list_all (\<lambda>p. snd p \<noteq> None)
              (group_sum_by_category ev (filter (in_year (uid u) ?y) (income_tbl st)))"
    by (simp_all add: dashboard_available_def)
  from ys have y: "db_binds_int ev ?y"
    by (simp add: list_all_iff)
  from float_values_defined [OF e] obtain ec where
    ec: "float_values (group_sum_by_category ev (filter (in_year (uid u) ?y) (expense_tbl st))) = Inr ec" ..
  from float_values_defined [OF i] obtain ic where
    ic: "float_values (group_sum_by_category ev (filter (in_year (uid u) ?y) (income_tbl st))) = Inr ic" ..
  show ?thesis
    by (simp add: financial_dashboard_ctx_def Let_def monthly_data_def yearly_data_def
        monthly_loop_bound [OF y] yearly_loop_bound [OF ys] group_query_def y ec ic)
qed

lemma dashboard_ctx_undefined:
  assumes "\<not> dashboard_available ev st u (case ya of None \<Rightarrow> cy | Some y \<Rightarrow> y)"
  shows "\<exists>e. financial_dashboard_ctx ev st u cy ya = Inl e"
proof -
  let ?y = "case ya of None \<Rightarrow> cy | Some y \<Rightarrow> y"
  show ?thesis
  proof (cases "list_all (db_binds_int ev) [?y - 4..?y]")
    case False
    then have "yearly_data ev st u ?y = Inl OverflowError"
      by (simp add: yearly_data_def yearly_loop_unbound)
    then show ?thesis
      by (simp add: financial_dashboard_ctx_def Let_def split: sum.splits)
  next
    case True
    with assms have "\<not> list_all (\<lambda>p. snd p \<noteq> None)
              (group_sum_by_category ev (filter (in_year (uid u) ?y) (expense_tbl st)))
      \<or> \<not> list_all (\<lambda>p. snd p \<noteq> None)
              (group_sum_by_category ev (filter (in_year (uid u) ?y) (income_tbl st)))"
      by (simp add: dashboard_available_def)
    then show ?thesis
      by (auto simp: financial_dashboard_ctx_def Let_def group_query_def float_values_null
          split: sum.splits)
  qed
qed

lemma dashboard_ctx_fields:
  assumes "financial_dashboard_ctx ev st u cy ya = Inr ctx"
  shows "c_selected_year ctx = (case ya of None \<Rightarrow> cy | Some y \<Rightarrow> y)"
    and "c_current_year ctx = cy"
    and "monthly_data ev st u (case ya of None \<Rightarrow> cy | Some y \<Rightarrow> y) = Inr (c_monthly_data ctx)"
    and "yearly_data ev st u (case ya of None \<Rightarrow> cy | Some y \<Rightarrow> y) = Inr (c_yearly_data ctx)"
    and "c_total_expenses ctx = py_sum ev (map m_expenses (c_monthly_data ctx))"
    and "c_total_incomes ctx = py_sum ev (map m_incomes (c_monthly_data ctx))"
    and "c_total_balance ctx = f_sub ev (c_total_incomes ctx) (c_total_expenses ctx)"
  using assms
  by (auto simp: financial_dashboard_ctx_def Let_def split: sum.splits)

lemma monthly_data_bound:
  assumes "db_binds_int ev y"
  shows "monthly_data ev st u y =
     Inr (map (\<lambda>m. \<lparr>m_month = m, m_month_name = month_names ! nat (m - 1),
                     m_expenses = or_0 (sql_sum ev (map amount (filter (in_month (uid u) y m) (expense_tbl st)))),
                     m_incomes = or_0 (sql_sum ev (map amount (filter (in_month (uid u) y m) (income_tbl st)))),
                     m_balance = minus_sums ev
                       (or_0 (sql_sum ev (map amount (filter (in_month (uid u) y m) (income_tbl st)))))
                       (or_0 (sql_sum ev (map amount (filter (in_month (uid u) y m) (expense_tbl st)))))\<rparr>)
              [1..12])"
  unfolding monthly_data_def by (rule monthly_loop_bound [OF assms])


lemma or_0_exact:
  assumes "db_sum_exact ev xs"
  shows "or_0 (sql_sum ev xs) = Finite (sum_list (map real_of xs))"
  using assms by (auto simp: db_sum_exact_def sql_sum_def or_0_def)

lemma dashboard_rendered:
  "financial_dashboard ev st u cy ya = Render (Financial_dashboard_html ctx) fl
   \<longleftrightarrow> financial_dashboard_ctx ev st u cy ya = Inr ctx \<and> fl = []"
  by (auto simp: financial_dashboard_def split: sum.splits)


lemma sample_binds: "db_binds_int sample_env i \<longleftrightarrow> - 9223372036854775808 \<le> i \<and> i < 9223372036854775808"
  by (simp add: sample_env_def)



section \<open>An invariant of the stored dates\<close>

text \<open>A key that the store assigns is not in the table yet.\<close>

lemma new_key_fresh: "new_key ks \<notin> set ks"
proof -
  have "k \<le> foldr max ks 0" if "k \<in> set ks" for k
    using that by (induction ks) (auto simp: max_def)
  then show ?thesis
    by (fastforce simp: new_key_def)
qed

text \<open>
  Every date that the application stores comes from \<^verbatim>\<open>strptime\<close>. When \<^verbatim>\<open>strptime\<close>
  returns calendar dates only, every state that the application reaches holds dates whose
  month is between 1 and 12.
\<close>

lemma update_txn_months:
  assumes "list_all (\<lambda>t. 1 \<le> month (date t) \<and> month (date t) \<le> 12) ts"
    and "1 \<le> month dt \<and> month dt \<le> 12"
  shows "list_all (\<lambda>t. 1 \<le> month (date t) \<and> month (date t) \<le> 12) (update_txn ts i d a c dt)"
  using assms by (induction ts) (auto simp: update_txn_def)

lemma delete_txn_months:
  assumes "list_all (\<lambda>t. 1 \<le> month (date t) \<and> month (date t) \<le> 12) ts"
  shows "list_all (\<lambda>t. 1 \<le> month (date t) \<and> month (date t) \<le> 12) (delete_txn ts i)"
  using assms by (induction ts) (auto simp: delete_txn_def)

lemma add_expense_months:
  assumes "\<And>s d. strptime_ymd ev s = Some d \<Longrightarrow> 1 \<le> month d \<and> month d \<le> 12"
    and "months_ok st"
  shows "months_ok (snd (add_expense ev now st u form))"
  using assms by (auto simp: add_expense_def months_ok_def split: option.splits)

lemma add_income_months:
  assumes "\<And>s d. strptime_ymd ev s = Some d \<Longrightarrow> 1 \<le> month d \<and> month d \<le> 12"
    and "months_ok st"
  shows "months_ok (snd (add_income ev now st u form))"
  using assms by (auto simp: add_income_def months_ok_def split: option.splits)

lemma edit_expense_months:
  assumes "\<And>s d. strptime_ymd ev s = Some d \<Longrightarrow> 1 \<le> month d \<and> month d \<le> 12"
    and "months_ok st"
  shows "months_ok (snd (edit_expense ev st u i form))"
  using assms
  by (auto simp: edit_expense_def months_ok_def update_txn_months split: option.splits sum.splits)

lemma edit_income_months:
  assumes "\<And>s d. strptime_ymd ev s = Some d \<Longrightarrow> 1 \<le> month d \<and> month d \<le> 12"
    and "months_ok st"
  shows "months_ok (snd (edit_income ev st u i form))"
  using assms
  by (auto simp: edit_income_def months_ok_def update_txn_months split: option.splits sum.splits)

lemma delete_expense_months:
  assumes "months_ok st"
  shows "months_ok (snd (delete_expense ev st u i))"
  using assms
  by (auto simp: delete_expense_def months_ok_def delete_txn_months split: sum.splits)

lemma delete_income_months:
  assumes "months_ok st"
  shows "months_ok (snd (delete_income ev st u i))"
  using assms
  by (auto simp: delete_income_def months_ok_def delete_txn_months split: sum.splits)

lemma register_tables:
  "expense_tbl (snd (register ev now st sess meth form)) = expense_tbl st
   \<and> income_tbl (snd (register ev now st sess meth form)) = income_tbl st"
  by (auto simp: register_def split: option.splits)

lemma login_required_store:
  "fst (snd (login_required r st sess (\<lambda>u. case h u of (x, st') \<Rightarrow> (x, st', sess)) (\<lambda>x. (x, st, sess))))
   = (case current_user st sess of None \<Rightarrow> st | Some u \<Rightarrow> snd (h u))"
  by (simp add: login_required_def split: option.splits prod.splits)

lemma login_required_same_store:
  "fst (snd (login_required r st sess (\<lambda>u. (h u, st, sess')) (\<lambda>x. (x, st, sess)))) = st"
  by (simp add: login_required_def split: option.splits)

lemma handle_months:
  assumes p: "\<And>s d. strptime_ymd ev s = Some d \<Longrightarrow> 1 \<le> month d \<and> month d \<le> 12"
    and ok: "months_ok st"
  shows "months_ok (fst (snd (handle ev ck req (st, sess))))"
proof (cases req)
  case Get_index
  then show ?thesis using ok by simp
next
  case (Req_login meth form)
  then show ?thesis using ok by (simp split: prod.splits)
next
  case (Req_register meth form)
  have "fst (snd (handle ev ck req (st, sess))) = snd (register ev (utcnow ck) st sess meth form)"
    by (simp add: Req_register split: prod.splits)
  then show ?thesis
    using ok register_tables [of ev "utcnow ck" st sess meth form]
    by (simp add: months_ok_def)
next
  case Get_dashboard
  then show ?thesis using ok by (simp add: login_required_same_store)
next
  case Get_logout
  have "fst (snd (handle ev ck req (st, sess))) = st"
    by (simp add: Get_logout login_required_def logout_def split: option.splits)
  then show ?thesis using ok by simp
next
  case Get_expenses
  then show ?thesis using ok by (simp add: login_required_same_store)
next
  case (Post_expenses_add form)
  then show ?thesis
    using ok add_expense_months [OF p ok]
    by (simp add: login_required_store split: option.splits)
next
  case (Get_expenses_delete i)
  then show ?thesis
    using ok delete_expense_months [OF ok]
    by (simp add: login_required_store split: option.splits)
next
  case (Post_expenses_edit i form)
  then show ?thesis
    using ok edit_expense_months [OF p ok]
    by (simp add: login_required_store split: option.splits)
next
  case Get_incomes
  then show ?thesis using ok by (simp add: login_required_same_store)
next
  case (Post_incomes_add form)
  then show ?thesis
    using ok add_income_months [OF p ok]
    by (simp add: login_required_store split: option.splits)
next
  case (Get_incomes_delete i)
  then show ?thesis
    using ok delete_income_months [OF ok]
    by (simp add: login_required_store split: option.splits)
next
  case (Post_incomes_edit i form)
  then show ?thesis
    using ok edit_income_months [OF p ok]
    by (simp add: login_required_store split: option.splits)
next
  case (Get_financial_dashboard year_arg)
  then show ?thesis using ok by (simp add: login_required_same_store)
qed

lemma reachable_months_ok:
  assumes "\<And>s d. strptime_ymd ev s = Some d \<Longrightarrow> 1 \<le> month d \<and> month d \<le> 12"
    and "reachable ev s"
  shows "months_ok (fst s)"
  using assms(2)
proof (induction rule: reachable.induct)
  case start
  show ?case by (simp add: months_ok_def)
next
  case (step s ck req)
  obtain st sess where s: "s = (st, sess)" by (cases s)
  with step.IH have "months_ok st" by simp
  from handle_months [OF assms(1) this, where ck = ck and req = req and sess = sess]
  show ?case by (simp add: s)
qed

section \<open>Grand totals\<close>

text \<open>
  The twelve monthly selections of a table partition the selection of the year: every row
  of the year is in exactly one of them.
\<close>

lemma sum_list_delta_months:
  fixes a :: "'a::comm_monoid_add"
  assumes "1 \<le> k" "k \<le> 12"
  shows "sum_list (map (\<lambda>m. if k = m then a else 0) [1..12]) = a"
proof -
  have "sum_list (map (\<lambda>m. if k = m then a else 0) [1..12]) = (\<Sum>m\<in>{1..12}. if k = m then a else 0)"
    by (simp add: sum_list_distinct_conv_sum_set del: upto_rec_numeral)
  also have "\<dots> = a"
    using assms by simp
  finally show ?thesis .
qed

lemma months_partition:
  assumes "list_all (\<lambda>t. 1 \<le> month (date t) \<and> month (date t) \<le> 12) ts"
  shows "sum_list (map (\<lambda>m. mset (filter (in_month ow y m) ts)) [1..12])
       = mset (filter (in_year ow y) ts)"
  using assms
proof (induction ts)
  case Nil
  then show ?case by (simp del: upto_rec_numeral)
next
  case (Cons t ts)
  then have IH: "sum_list (map (\<lambda>m. mset (filter (in_month ow y m) ts)) [1..12])
       = mset (filter (in_year ow y) ts)"
    and mt: "1 \<le> month (date t)" "month (date t) \<le> 12"
    by simp_all
  have step: "mset (filter (in_month ow y m) (t # ts))
      = (if month (date t) = m then (if in_year ow y t then {#t#} else {#}) else {#})
        + mset (filter (in_month ow y m) ts)" for m
    by (simp add: in_month_def in_year_def)
  have "sum_list (map (\<lambda>m. mset (filter (in_month ow y m) (t # ts))) [1..12])
      = sum_list (map (\<lambda>m. if month (date t) = m then (if in_year ow y t then {#t#} else {#}) else {#}) [1..12])
        + sum_list (map (\<lambda>m. mset (filter (in_month ow y m) ts)) [1..12])"
    unfolding step by (rule sum_list_addf)
  also have "\<dots> = (if in_year ow y t then {#t#} else {#}) + mset (filter (in_year ow y) ts)"
    by (simp only: sum_list_delta_months [OF mt] IH)
  also have "\<dots> = mset (filter (in_year ow y) (t # ts))"
    by simp
  finally show ?case .
qed

lemma sum_mset_sum_list_msets:
  fixes f :: "'a \<Rightarrow> real"
  shows "sum_list (map (\<lambda>m. sum_mset (image_mset f (g m))) ms)
       = sum_mset (image_mset f (sum_list (map g ms)))"
  by (induction ms) simp_all

lemma months_partition_real:
  assumes "list_all (\<lambda>t. 1 \<le> month (date t) \<and> month (date t) \<le> 12) ts"
  shows "sum_list (map (\<lambda>m. sum_list (map (\<lambda>t. real_of (amount t)) (filter (in_month ow y m) ts))) [1..12])
       = sum_list (map (\<lambda>t. real_of (amount t)) (filter (in_year ow y) ts))"
proof -
  have c: "sum_list (map (\<lambda>t. real_of (amount t)) xs)
      = sum_mset (image_mset (\<lambda>t. real_of (amount t)) (mset xs))" for xs :: "txn list"
    by (metis mset_map sum_mset_sum_list)
  have "sum_list (map (\<lambda>m. sum_list (map (\<lambda>t. real_of (amount t)) (filter (in_month ow y m) ts))) [1..12])
    = sum_list (map (\<lambda>m. sum_mset (image_mset (\<lambda>t. real_of (amount t)) (mset (filter (in_month ow y m) ts)))) [1..12])"
    by (simp only: c)
  also have "\<dots>
    = sum_mset (image_mset (\<lambda>t. real_of (amount t)) (sum_list (map (\<lambda>m. mset (filter (in_month ow y m) ts)) [1..12])))"
    by (rule sum_mset_sum_list_msets)
  also have "\<dots> = sum_mset (image_mset (\<lambda>t. real_of (amount t)) (mset (filter (in_year ow y) ts)))"
    by (simp only: months_partition [OF assms])
  also have "\<dots> = sum_list (map (\<lambda>t. real_of (amount t)) (filter (in_year ow y) ts))"
    by (simp only: c)
  finally show ?thesis .
qed

lemma in_month_eq: "in_month ow y m = (\<lambda>t. user_id t = ow \<and> year (date t) = y \<and> month (date t) = m)"
  by (simp add: in_month_def fun_eq_iff)

lemma in_year_eq: "in_year ow y = (\<lambda>t. user_id t = ow \<and> year (date t) = y)"
  by (simp add: in_year_def fun_eq_iff)

lemma monthly_data_Inr_bound:
  assumes "monthly_data ev st u y = Inr es"
  shows "db_binds_int ev y"
proof (rule ccontr)
  assume "\<not> db_binds_int ev y"
  from monthly_data_unbound [OF this] assms show False by simp
qed

lemma total_exact:
  assumes ms: "list_all (\<lambda>t. 1 \<le> month (date t) \<and> month (date t) \<le> 12) ts"
    and em: "\<forall>m\<in>{1..12}. db_sum_exact ev (map amount (filter (in_month ow y m) ts))"
    and ey: "db_sum_exact ev (map amount (filter (in_year ow y) ts))"
    and ep: "py_sum_exact ev (map (\<lambda>m. or_0 (sql_sum ev (map amount (filter (in_month ow y m) ts)))) [1..12])"
  shows "py_sum ev (map (\<lambda>m. or_0 (sql_sum ev (map amount (filter (in_month ow y m) ts)))) [1..12])
       = or_0 (sql_sum ev (map amount (filter (in_year ow y) ts)))"
proof -
  have each: "map (\<lambda>m. or_0 (sql_sum ev (map amount (filter (in_month ow y m) ts)))) [1..12]
      = map (\<lambda>m. Finite (sum_list (map (\<lambda>t. real_of (amount t)) (filter (in_month ow y m) ts)))) [1..12]"
  proof (rule map_cong [OF refl])
    fix m :: int
    assume "m \<in> set [1..12]"
    then have "m \<in> {1..12}" by simp
    with em have "db_sum_exact ev (map amount (filter (in_month ow y m) ts))" ..
    from or_0_exact [OF this]
    show "or_0 (sql_sum ev (map amount (filter (in_month ow y m) ts)))
        = Finite (sum_list (map (\<lambda>t. real_of (amount t)) (filter (in_month ow y m) ts)))"
      by (simp add: comp_def)
  qed
  from ep have "py_sum ev (map (\<lambda>m. or_0 (sql_sum ev (map amount (filter (in_month ow y m) ts)))) [1..12])
      = Finite (sum_list (map real_of
          (map (\<lambda>m. or_0 (sql_sum ev (map amount (filter (in_month ow y m) ts)))) [1..12])))"
    by (simp add: py_sum_exact_def)
  also have "\<dots> = Finite (sum_list (map (\<lambda>m. sum_list (map (\<lambda>t. real_of (amount t))
          (filter (in_month ow y m) ts))) [1..12]))"
    unfolding each by (simp add: comp_def del: upto_rec_numeral)
  also have "\<dots> = Finite (sum_list (map (\<lambda>t. real_of (amount t)) (filter (in_year ow y) ts)))"
    by (simp only: months_partition_real [OF ms])
  also have "\<dots> = or_0 (sql_sum ev (map amount (filter (in_year ow y) ts)))"
    using or_0_exact [OF ey] by (simp add: comp_def)
  finally show ?thesis .
qed

text \<open>
  Claim C2, as amended. For every user and selected year for which the dashboard is
  rendered, and with the months of all stored dates between 1 and 12 (what a \<^verbatim>\<open>db.Date\<close>
  column holds): the selected year is the year of the request; \<open>total_expenses\<close> is
  Python's \<^verbatim>\<open>sum\<close> of the 12 monthly expense sums and \<open>total_incomes\<close> of the 12 monthly
  income sums; \<open>total_balance\<close> is \<open>total_incomes - total_expenses\<close> in float arithmetic;
  the 12 monthly queries together select each of the user's rows of that year exactly
  once, so that no row is counted twice and none is left out; and each total equals the
  store's \<^verbatim>\<open>SUM\<close> over the user's rows of the year, and the sum of their amounts as real
  numbers, whenever the sums involved are exact. With rounding the total and the direct
  sum can differ, as the example after the theorem shows.
\<close>

theorem grand_totals_fold_consistency:
  assumes "financial_dashboard ev st u cy ya = Render (Financial_dashboard_html ctx) fl"
    and "months_ok st"
  shows "c_selected_year ctx = (case ya of None \<Rightarrow> cy | Some y \<Rightarrow> y)
     \<and> c_total_expenses ctx = py_sum ev (map m_expenses (c_monthly_data ctx))
     \<and> c_total_incomes ctx = py_sum ev (map m_incomes (c_monthly_data ctx))
     \<and> c_total_balance ctx = f_sub ev (c_total_incomes ctx) (c_total_expenses ctx)
     \<and> sum_list (map (\<lambda>m. mset (filter (\<lambda>t. user_id t = uid u \<and> year (date t) = c_selected_year ctx
                                              \<and> month (date t) = m) (expense_tbl st))) [1..12])
         = mset (filter (\<lambda>t. user_id t = uid u \<and> year (date t) = c_selected_year ctx) (expense_tbl st))
     \<and> sum_list (map (\<lambda>m. mset (filter (\<lambda>t. user_id t = uid u \<and> year (date t) = c_selected_year ctx
                                              \<and> month (date t) = m) (income_tbl st))) [1..12])
         = mset (filter (\<lambda>t. user_id t = uid u \<and> year (date t) = c_selected_year ctx) (income_tbl st))
     \<and> ((\<forall>m\<in>{1..12}. db_sum_exact ev (map amount
              (filter (\<lambda>t. user_id t = uid u \<and> year (date t) = c_selected_year ctx
                           \<and> month (date t) = m) (expense_tbl st))))
          \<and> db_sum_exact ev (map amount
              (filter (\<lambda>t. user_id t = uid u \<and> year (date t) = c_selected_year ctx) (expense_tbl st)))
          \<and> py_sum_exact ev (map m_expenses (c_monthly_data ctx))
        \<longrightarrow> c_total_expenses ctx =
              or_0 (sql_sum ev (map amount
                (filter (\<lambda>t. user_id t = uid u \<and> year (date t) = c_selected_year ctx) (expense_tbl st))))
          \<and> c_total_expenses ctx =
              Finite (sum_list (map real_of (map amount
                (filter (\<lambda>t. user_id t = uid u \<and> year (date t) = c_selected_year ctx) (expense_tbl st))))))
     \<and> ((\<forall>m\<in>{1..12}. db_sum_exact ev (map amount
              (filter (\<lambda>t. user_id t = uid u \<and> year (date t) = c_selected_year ctx
                           \<and> month (date t) = m) (income_tbl st))))
          \<and> db_sum_exact ev (map amount
              (filter (\<lambda>t. user_id t = uid u \<and> year (date t) = c_selected_year ctx) (income_tbl st)))
          \<and> py_sum_exact ev (map m_incomes (c_monthly_data ctx))
        \<longrightarrow> c_total_incomes ctx =
              or_0 (sql_sum ev (map amount
                (filter (\<lambda>t. user_id t = uid u \<and> year (date t) = c_selected_year ctx) (income_tbl st))))
          \<and> c_total_incomes ctx =
              Finite (sum_list (map real_of (map amount
                (filter (\<lambda>t. user_id t = uid u \<and> year (date t) = c_selected_year ctx) (income_tbl st))))))"
proof -
  let ?y = "c_selected_year ctx"
  from assms(1) have c: "financial_dashboard_ctx ev st u cy ya = Inr ctx"
    by (simp add: dashboard_rendered)
  note f = dashboard_ctx_fields [OF c]
  from f(1) f(3) have md: "monthly_data ev st u ?y = Inr (c_monthly_data ctx)"
    by simp
  from monthly_data_bound [OF monthly_data_Inr_bound [OF md], of st u] md
  have es: "c_monthly_data ctx =
     map (\<lambda>m. \<lparr>m_month = m, m_month_name = month_names ! nat (m - 1),
                     m_expenses = or_0 (sql_sum ev (map amount (filter (in_month (uid u) ?y m) (expense_tbl st)))),
                     m_incomes = or_0 (sql_sum ev (map amount (filter (in_month (uid u) ?y m) (income_tbl st)))),
                     m_balance = minus_sums ev
                       (or_0 (sql_sum ev (map amount (filter (in_month (uid u) ?y m) (income_tbl st)))))
                       (or_0 (sql_sum ev (map amount (filter (in_month (uid u) ?y m) (expense_tbl st)))))\<rparr>)
              [1..12]"
    by simp
  have me: "map m_expenses (c_monthly_data ctx) =
      map (\<lambda>m. or_0 (sql_sum ev (map amount (filter (in_month (uid u) ?y m) (expense_tbl st))))) [1..12]"
    and mi: "map m_incomes (c_monthly_data ctx) =
      map (\<lambda>m. or_0 (sql_sum ev (map amount (filter (in_month (uid u) ?y m) (income_tbl st))))) [1..12]"
    unfolding es by (simp_all add: comp_def del: upto_rec_numeral)
  from assms(2) have oe: "list_all (\<lambda>t. 1 \<le> month (date t) \<and> month (date t) \<le> 12) (expense_tbl st)"
    and oi: "list_all (\<lambda>t. 1 \<le> month (date t) \<and> month (date t) \<le> 12) (income_tbl st)"
    by (simp_all add: months_ok_def)
  have pe: "sum_list (map (\<lambda>m. mset (filter (in_month (uid u) ?y m) (expense_tbl st))) [1..12])
         = mset (filter (in_year (uid u) ?y) (expense_tbl st))"
    by (rule months_partition [OF oe])
  have pi: "sum_list (map (\<lambda>m. mset (filter (in_month (uid u) ?y m) (income_tbl st))) [1..12])
         = mset (filter (in_year (uid u) ?y) (income_tbl st))"
    by (rule months_partition [OF oi])
  have xe: "c_total_expenses ctx =
              or_0 (sql_sum ev (map amount (filter (in_year (uid u) ?y) (expense_tbl st))))
          \<and> c_total_expenses ctx =
              Finite (sum_list (map real_of (map amount (filter (in_year (uid u) ?y) (expense_tbl st)))))"
    if "\<forall>m\<in>{1..12}. db_sum_exact ev (map amount (filter (in_month (uid u) ?y m) (expense_tbl st)))"
      and "db_sum_exact ev (map amount (filter (in_year (uid u) ?y) (expense_tbl st)))"
      and "py_sum_exact ev (map m_expenses (c_monthly_data ctx))"
    using total_exact [OF oe that(1) that(2)] that(3) or_0_exact [OF that(2)] by (simp add: f(5) me)
  have xi: "c_total_incomes ctx =
              or_0 (sql_sum ev (map amount (filter (in_year (uid u) ?y) (income_tbl st))))
          \<and> c_total_incomes ctx =
              Finite (sum_list (map real_of (map amount (filter (in_year (uid u) ?y) (income_tbl st)))))"
    if "\<forall>m\<in>{1..12}. db_sum_exact ev (map amount (filter (in_month (uid u) ?y m) (income_tbl st)))"
      and "db_sum_exact ev (map amount (filter (in_year (uid u) ?y) (income_tbl st)))"
      and "py_sum_exact ev (map m_incomes (c_monthly_data ctx))"
    using total_exact [OF oi that(1) that(2)] that(3) or_0_exact [OF that(2)] by (simp add: f(6) mi)
  from f(1) f(5) f(6) f(7) pe pi xe xi show ?thesis
    unfolding in_month_eq in_year_eq by blast
qed

lemma sample_add_zero: "binary64_add (Finite 0) (Finite x) = Finite x"
  by (simp add: binary64_add_def either_way_def)

lemma sample_monthly_expenses:
  "monthly_data sample_env sample_store alice 2024 = Inr es \<Longrightarrow>
   map m_expenses es =
     [Finite 0, Finite 0, Finite (25 / 2), Finite 0, Finite 0, Finite 0,
      Finite 0, Finite 0, Finite 0, Finite 0, Finite 0, Finite 0]
   \<and> map m_incomes es =
     [Finite 2000, Finite 0, Finite 0, Finite 0, Finite 0, Finite 0,
      Finite 0, Finite 0, Finite 0, Finite 0, Finite 0, Finite 0]"
proof -
  assume a: "monthly_data sample_env sample_store alice 2024 = Inr es"
  have b: "db_binds_int sample_env 2024"
    by (simp add: sample_binds)
  have s: "db_sum sample_env [Finite x] = Some (Finite x)" for x
    by (simp add: sample_env_def sample_add_zero)
  from a show ?thesis
    unfolding monthly_data_bound [OF b]
    by (auto simp: upto_rec1 in_month_def sample_store_def alice_def lunch_def rent_def
        salary_def sql_sum_def or_0_def s)
qed

theorem grand_totals_fold_consistency_witness:
  "months_ok sample_store
   \<and> (\<exists>ctx. financial_dashboard sample_env sample_store alice 2026 (Some 2024) =
               Render (Financial_dashboard_html ctx) []
         \<and> c_selected_year ctx = 2024
         \<and> py_sum_exact sample_env (map m_expenses (c_monthly_data ctx))
         \<and> py_sum_exact sample_env (map m_incomes (c_monthly_data ctx))
         \<and> c_total_expenses ctx = Finite (25 / 2)
         \<and> c_total_incomes ctx = Finite 2000
         \<and> c_total_balance ctx = Finite (3975 / 2))"
proof -
  have h: "months_ok sample_store"
    by (simp add: months_ok_def sample_store_def lunch_def rent_def salary_def)
  have a: "dashboard_available sample_env sample_store alice 2024"
    by (simp add: dashboard_available_def sample_binds upto_rec1 group_sum_by_category_def
        in_year_def sample_store_def alice_def lunch_def rent_def salary_def sql_sum_def)
       (simp add: sample_env_def binary64_add_def either_way_def)
  from dashboard_ctx_defined [where ev = sample_env and st = sample_store and u = alice and ya = "Some 2024" and cy = 2026] a
  obtain ctx where c: "financial_dashboard_ctx sample_env sample_store alice 2026 (Some 2024) = Inr ctx"
    by auto
  then have r: "financial_dashboard sample_env sample_store alice 2026 (Some 2024) =
               Render (Financial_dashboard_html ctx) []"
    by (simp add: financial_dashboard_def)
  note t = grand_totals_fold_consistency [OF r h]
  from t have y: "c_selected_year ctx = 2024"
    by simp
  from dashboard_ctx_fields(3) [OF c]
  have md: "monthly_data sample_env sample_store alice 2024 = Inr (c_monthly_data ctx)"
    by simp
  note m = sample_monthly_expenses [OF md]
  have pe: "py_sum_exact sample_env (map m_expenses (c_monthly_data ctx))"
    and pi: "py_sum_exact sample_env (map m_incomes (c_monthly_data ctx))"
    unfolding m [THEN conjunct1] m [THEN conjunct2]
    by (simp_all add: py_sum_exact_def sample_env_def binary64_add_def either_way_def)
  have s: "db_sum sample_env [Finite x] = Some (Finite x)" for x
    by (simp add: sample_env_def sample_add_zero)
  have em: "\<forall>m\<in>{1..12}. db_sum_exact sample_env (map amount
              (filter (\<lambda>t. user_id t = uid alice \<and> year (date t) = 2024 \<and> month (date t) = m)
                 (expense_tbl sample_store)))"
    by (simp add: db_sum_exact_def s sample_store_def alice_def lunch_def rent_def)
  have im: "\<forall>m\<in>{1..12}. db_sum_exact sample_env (map amount
              (filter (\<lambda>t. user_id t = uid alice \<and> year (date t) = 2024 \<and> month (date t) = m)
                 (income_tbl sample_store)))"
    by (simp add: db_sum_exact_def s sample_store_def alice_def salary_def)
  have ey: "db_sum_exact sample_env (map amount
              (filter (\<lambda>t. user_id t = uid alice \<and> year (date t) = 2024) (expense_tbl sample_store)))"
    by (simp add: db_sum_exact_def s sample_store_def alice_def lunch_def rent_def)
  have iy: "db_sum_exact sample_env (map amount
              (filter (\<lambda>t. user_id t = uid alice \<and> year (date t) = 2024) (income_tbl sample_store)))"
    by (simp add: db_sum_exact_def s sample_store_def alice_def salary_def)
  from t [unfolded y] em ey pe
  have "c_total_expenses ctx = or_0 (sql_sum sample_env (map amount
          (filter (\<lambda>t. user_id t = uid alice \<and> year (date t) = 2024) (expense_tbl sample_store))))"
    by blast
  then have te: "c_total_expenses ctx = Finite (25 / 2)"
    by (simp add: sql_sum_def or_0_def s sample_store_def alice_def lunch_def rent_def)
  from t [unfolded y] im iy pi
  have "c_total_incomes ctx = or_0 (sql_sum sample_env (map amount
          (filter (\<lambda>t. user_id t = uid alice \<and> year (date t) = 2024) (income_tbl sample_store))))"
    by blast
  then have ti: "c_total_incomes ctx = Finite 2000"
    by (simp add: sql_sum_def or_0_def s sample_store_def alice_def salary_def)
  from t have "c_total_balance ctx = f_sub sample_env (c_total_incomes ctx) (c_total_expenses ctx)"
    by blast
  then have tb: "c_total_balance ctx = Finite (3975 / 2)"
    by (simp add: te ti sample_env_def binary64_add_def binary64_neg_def either_way_def)
  from r y pe pi te ti tb
  have "financial_dashboard sample_env sample_store alice 2026 (Some 2024) =
               Render (Financial_dashboard_html ctx) []
         \<and> c_selected_year ctx = 2024
         \<and> py_sum_exact sample_env (map m_expenses (c_monthly_data ctx))
         \<and> py_sum_exact sample_env (map m_incomes (c_monthly_data ctx))
         \<and> c_total_expenses ctx = Finite (25 / 2)
         \<and> c_total_incomes ctx = Finite 2000
         \<and> c_total_balance ctx = Finite (3975 / 2)"
    by (intro conjI)
  then have "\<exists>ctx. financial_dashboard sample_env sample_store alice 2026 (Some 2024) =
               Render (Financial_dashboard_html ctx) []
         \<and> c_selected_year ctx = 2024
         \<and> py_sum_exact sample_env (map m_expenses (c_monthly_data ctx))
         \<and> py_sum_exact sample_env (map m_incomes (c_monthly_data ctx))
         \<and> c_total_expenses ctx = Finite (25 / 2)
         \<and> c_total_incomes ctx = Finite 2000
         \<and> c_total_balance ctx = Finite (3975 / 2)" ..
  with h show ?thesis ..
qed

lemma rounding_monthly:
  "monthly_data sample_env rounding_store alice 2024 = Inr es \<Longrightarrow>
   map m_expenses es =
     [Finite (3602879701896397 / 36028797018963968), Finite (3602879701896397 / 18014398509481984),
      Finite (5404319552844595 / 18014398509481984), Finite 0, Finite 0, Finite 0,
      Finite 0, Finite 0, Finite 0, Finite 0, Finite 0, Finite 0]"
proof -
  assume a: "monthly_data sample_env rounding_store alice 2024 = Inr es"
  have b: "db_binds_int sample_env 2024"
    by (simp add: sample_binds)
  have s: "db_sum sample_env [Finite x] = Some (Finite x)" for x
    by (simp add: sample_env_def sample_add_zero)
  from a show ?thesis
    unfolding monthly_data_bound [OF b]
    by (auto simp: upto_rec1 in_month_def rounding_store_def alice_def sql_sum_def or_0_def s)
qed

lemma rounding_direct:
  "or_0 (sql_sum sample_env (map amount
      (filter (\<lambda>t. user_id t = uid alice \<and> year (date t) = 2024) (expense_tbl rounding_store))))
   = Finite (5404319552844595 / 9007199254740992)"
  by (simp add: rounding_store_def alice_def sql_sum_def or_0_def sample_env_def
      binary64_add_def either_way_def)

text \<open>
  The claim as it was stated fails on floats. With the expenses \<^verbatim>\<open>0.3\<close>, \<^verbatim>\<open>0.2\<close> and
  \<^verbatim>\<open>0.1\<close> of March, February and January, the total of the monthly sums is
  \<^verbatim>\<open>(0.1 + 0.2) + 0.3 = 0.6000000000000001\<close>, and the sum over the rows of the year, which
  the yearly summary shows, is \<^verbatim>\<open>(0.3 + 0.2) + 0.1 = 0.6\<close>.
\<close>

theorem grand_totals_counterexample:
  "months_ok rounding_store
   \<and> map_sum id (map m_expenses \<circ> c_monthly_data)
       (financial_dashboard_ctx sample_env rounding_store alice 2026 (Some 2024))
     = Inr [Finite (3602879701896397 / 36028797018963968), Finite (3602879701896397 / 18014398509481984),
            Finite (5404319552844595 / 18014398509481984), Finite 0, Finite 0, Finite 0,
            Finite 0, Finite 0, Finite 0, Finite 0, Finite 0, Finite 0]
   \<and> map_sum id c_total_expenses
       (financial_dashboard_ctx sample_env rounding_store alice 2026 (Some 2024))
     = Inr (Finite (1351079888211149 / 2251799813685248))
   \<and> map_sum id (map y_expenses \<circ> c_yearly_data)
       (financial_dashboard_ctx sample_env rounding_store alice 2026 (Some 2024))
     = Inr [Finite 0, Finite 0, Finite 0, Finite 0, Finite (5404319552844595 / 9007199254740992)]
   \<and> or_0 (sql_sum sample_env (map amount
        (filter (in_year (uid alice) 2024) (expense_tbl rounding_store))))
     = Finite (5404319552844595 / 9007199254740992)
   \<and> Finite (1351079888211149 / 2251799813685248) \<noteq> Finite (5404319552844595 / 9007199254740992)"
proof -
  have h: "months_ok rounding_store"
    by (simp add: months_ok_def rounding_store_def)
  have a: "dashboard_available sample_env rounding_store alice 2024"
    by (simp add: dashboard_available_def sample_binds upto_rec1 group_sum_by_category_def
        in_year_def rounding_store_def alice_def sql_sum_def)
       (simp add: sample_env_def binary64_add_def either_way_def)
  from dashboard_ctx_defined [where ev = sample_env and st = rounding_store and u = alice and ya = "Some 2024" and cy = 2026] a
  obtain ctx where c: "financial_dashboard_ctx sample_env rounding_store alice 2026 (Some 2024) = Inr ctx"
    by auto
  note f = dashboard_ctx_fields [OF c]
  from f(3) have md: "monthly_data sample_env rounding_store alice 2024 = Inr (c_monthly_data ctx)"
    by simp
  note me = rounding_monthly [OF md]
  have "c_total_expenses ctx = py_sum sample_env (map m_expenses (c_monthly_data ctx))"
    by (rule f(5))
  also have "\<dots> = Finite (1351079888211149 / 2251799813685248)"
    unfolding me
    by (simp add: sample_env_def binary64_add_def either_way_def)
  finally have te: "c_total_expenses ctx = Finite (1351079888211149 / 2251799813685248)" .
  have ys: "list_all (db_binds_int sample_env) [2024 - 4..2024]"
    by (simp add: sample_binds upto_rec1)
  have u: "[2024 - 4..2024] = [2020, 2021, 2022, 2023, 2024::int]"
    by (simp add: upto_rec1)
  from f(4) have yd: "yearly_data sample_env rounding_store alice 2024 = Inr (c_yearly_data ctx)"
    by simp
  let ?F = "(\<lambda>y. \<lparr>y_year = y,
                     y_expenses = or_0 (sql_sum sample_env (map amount (filter (in_year (uid alice) y) (expense_tbl rounding_store)))),
                     y_incomes = or_0 (sql_sum sample_env (map amount (filter (in_year (uid alice) y) (income_tbl rounding_store)))),
                     y_balance = minus_sums sample_env
                       (or_0 (sql_sum sample_env (map amount (filter (in_year (uid alice) y) (income_tbl rounding_store)))))
                       (or_0 (sql_sum sample_env (map amount (filter (in_year (uid alice) y) (expense_tbl rounding_store)))))\<rparr>)"
  have "(Inr (map ?F [2024 - 4..2024]) :: exn + year_entry list) = Inr (c_yearly_data ctx)"
    by (rule trans [OF yearly_loop_bound [OF ys, symmetric] yd [unfolded yearly_data_def]])
  then have "map ?F [2020, 2021, 2022, 2023, 2024] = c_yearly_data ctx"
    by (simp only: u sum.inject)
  then have "c_yearly_data ctx = map ?F [2020, 2021, 2022, 2023, 2024]"
    by (rule sym)
  then have "map y_expenses (c_yearly_data ctx) =
      map (\<lambda>y. or_0 (sql_sum sample_env (map amount (filter (in_year (uid alice) y) (expense_tbl rounding_store)))))
        [2020, 2021, 2022, 2023, 2024]"
    by simp
  also have "\<dots> = [Finite 0, Finite 0, Finite 0, Finite 0, Finite (5404319552844595 / 9007199254740992)]"
    by (simp add: in_year_def rounding_store_def alice_def sql_sum_def or_0_def sample_env_def
        binary64_add_def either_way_def)
  finally have ye: "map y_expenses (c_yearly_data ctx) =
      [Finite 0, Finite 0, Finite 0, Finite 0, Finite (5404319552844595 / 9007199254740992)]" .
  have d: "or_0 (sql_sum sample_env (map amount
        (filter (in_year (uid alice) 2024) (expense_tbl rounding_store))))
     = Finite (5404319552844595 / 9007199254740992)"
    using rounding_direct by (simp add: in_year_eq)
  have ne: "Finite (1351079888211149 / 2251799813685248) \<noteq> Finite (5404319552844595 / 9007199254740992)"
    by simp
  from h me te ye d ne show ?thesis
    by (simp add: c)
qed

section \<open>The scenario of the specification\<close>

text \<open>
  The scenario of the specification: one expense "Lunch" of 12.50 in category "Food" on
  2024-03-15. The summary of 2024 shows 12.50 in month 3 and 0 in every other month.
\<close>

lemma lunch_scenario:
  "snd (add_expense sample_env 9 \<lparr>user_tbl = [alice], expense_tbl = [], income_tbl = []\<rparr> alice lunch_form)
     = \<lparr>user_tbl = [alice], expense_tbl = [lunch\<lparr>created_at := 9\<rparr>], income_tbl = []\<rparr>
   \<and> map_sum id (map m_expenses)
        (monthly_data sample_env \<lparr>user_tbl = [alice], expense_tbl = [lunch\<lparr>created_at := 9\<rparr>], income_tbl = []\<rparr>
           alice 2024)
     = Inr [Finite 0, Finite 0, Finite (25 / 2), Finite 0, Finite 0, Finite 0,
            Finite 0, Finite 0, Finite 0, Finite 0, Finite 0, Finite 0]"
proof -
  have b: "db_binds_int sample_env 2024"
    by (simp add: sample_binds)
  have s: "db_sum sample_env [Finite x] = Some (Finite x)" for x
    by (simp add: sample_env_def sample_add_zero)
  have 1: "snd (add_expense sample_env 9 \<lparr>user_tbl = [alice], expense_tbl = [], income_tbl = []\<rparr> alice lunch_form)
     = \<lparr>user_tbl = [alice], expense_tbl = [lunch\<lparr>created_at := 9\<rparr>], income_tbl = []\<rparr>"
    by (simp add: add_expense_def lunch_form_def blank_def sample_env_def new_key_def alice_def
        lunch_def)
  have 2: "map_sum id (map m_expenses)
        (monthly_data sample_env \<lparr>user_tbl = [alice], expense_tbl = [lunch\<lparr>created_at := 9\<rparr>], income_tbl = []\<rparr>
           alice 2024)
     = Inr [Finite 0, Finite 0, Finite (25 / 2), Finite 0, Finite 0, Finite 0,
            Finite 0, Finite 0, Finite 0, Finite 0, Finite 0, Finite 0]"
    unfolding monthly_data_bound [OF b]
    by (simp add: upto_rec1 in_month_def alice_def lunch_def sql_sum_def or_0_def s)
  from 1 2 show ?thesis ..
qed

section \<open>Isolation of users\<close>

lemma filter_in_month:
  "filter (in_month ow y m) ts =
   filter (\<lambda>t. year (date t) = y \<and> month (date t) = m) (filter (\<lambda>t. user_id t = ow) ts)"
  by (simp add: in_month_eq)

lemma filter_in_year:
  "filter (in_year ow y) ts = filter (\<lambda>t. year (date t) = y) (filter (\<lambda>t. user_id t = ow) ts)"
  by (simp add: in_year_eq)

lemma views_of_owned_part:
  assumes "owned_part u st = owned_part u st'"
  shows "expenses ev st u = expenses ev st' u"
    and "incomes ev st u = incomes ev st' u"
    and "monthly_data ev st u y = monthly_data ev st' u y"
    and "yearly_data ev st u y = yearly_data ev st' u y"
    and "financial_dashboard_ctx ev st u cy ya = financial_dashboard_ctx ev st' u cy ya"
proof -
  from assms have e: "filter (\<lambda>t. user_id t = uid u) (expense_tbl st)
      = filter (\<lambda>t. user_id t = uid u) (expense_tbl st')"
    and i: "filter (\<lambda>t. user_id t = uid u) (income_tbl st)
      = filter (\<lambda>t. user_id t = uid u) (income_tbl st')"
    by (simp_all add: owned_part_def)
  show "expenses ev st u = expenses ev st' u"
    by (simp only: expenses_def e)
  show "incomes ev st u = incomes ev st' u"
    by (simp only: incomes_def i)
  have ml: "monthly_loop ev st u y ms = monthly_loop ev st' u y ms" for y ms
    by (induction ms) (simp_all only: monthly_loop.simps sum_query_def filter_in_month e i)
  show m: "monthly_data ev st u y = monthly_data ev st' u y" for y
    by (simp only: monthly_data_def ml)
  have yl: "yearly_loop ev st u ys = yearly_loop ev st' u ys" for ys
    by (induction ys) (simp_all only: yearly_loop.simps sum_query_def filter_in_year e i)
  show yd: "yearly_data ev st u y = yearly_data ev st' u y" for y
    by (simp only: yearly_data_def yl)
  show "financial_dashboard_ctx ev st u cy ya = financial_dashboard_ctx ev st' u cy ya"
    by (simp only: financial_dashboard_ctx_def group_query_def filter_in_year e i m yd)
qed

text \<open>
  Claim C6. Every row of a user's expense listing and income listing is owned by that
  user, so a row created by another user never appears there. The listings with their
  totals and the whole financial dashboard (monthly and yearly summaries, category totals
  and grand totals) are the same for any two stores in which the user owns the same
  rows: the rows of other users contribute nothing.
\<close>

theorem owner_isolation:
  "(\<forall>l total cats fl. expenses ev st u = Render (Expenses_html l total cats) fl \<longrightarrow>
        (\<forall>t\<in>set l. user_id t = uid u))
   \<and> (\<forall>l total cats fl. incomes ev st u = Render (Incomes_html l total cats) fl \<longrightarrow>
        (\<forall>t\<in>set l. user_id t = uid u))
   \<and> (owned_part u st = owned_part u st' \<longrightarrow>
        expenses ev st u = expenses ev st' u
      \<and> incomes ev st u = incomes ev st' u
      \<and> financial_dashboard ev st u cy ya = financial_dashboard ev st' u cy ya)"
proof (intro conjI allI impI)
  fix l total cats fl
  assume "expenses ev st u = Render (Expenses_html l total cats) fl"
  then have "l = order_by_date_desc (filter (\<lambda>t. user_id t = uid u) (expense_tbl st))"
    by (simp add: expenses_def Let_def)
  then show "\<forall>t\<in>set l. user_id t = uid u"
    by (simp add: order_by_date_desc_def)
next
  fix l total cats fl
  assume "incomes ev st u = Render (Incomes_html l total cats) fl"
  then have "l = order_by_date_desc (filter (\<lambda>t. user_id t = uid u) (income_tbl st))"
    by (simp add: incomes_def Let_def)
  then show "\<forall>t\<in>set l. user_id t = uid u"
    by (simp add: order_by_date_desc_def)
next
  assume o: "owned_part u st = owned_part u st'"
  show "expenses ev st u = expenses ev st' u"
    by (rule views_of_owned_part(1) [OF o])
  show "incomes ev st u = incomes ev st' u"
    by (rule views_of_owned_part(2) [OF o])
  show "financial_dashboard ev st u cy ya = financial_dashboard ev st' u cy ya"
    by (simp only: financial_dashboard_def views_of_owned_part(5) [OF o])
qed

theorem owner_isolation_witness:
  "owned_part alice sample_store =
     owned_part alice (snd (add_expense sample_env 9 sample_store bob lunch_form))
   \<and> expense_tbl (snd (add_expense sample_env 9 sample_store bob lunch_form)) \<noteq> expense_tbl sample_store
   \<and> expenses sample_env sample_store alice =
       Render (Expenses_html [lunch] (Finite (25 / 2)) [(''Food'', Finite (25 / 2))]) []
   \<and> user_id lunch = uid alice
   \<and> expenses sample_env (snd (add_expense sample_env 9 sample_store bob lunch_form)) alice
       = expenses sample_env sample_store alice
   \<and> financial_dashboard sample_env (snd (add_expense sample_env 9 sample_store bob lunch_form)) alice 2026 None
       = financial_dashboard sample_env sample_store alice 2026 None"
proof -
  let ?st' = "snd (add_expense sample_env 9 sample_store bob lunch_form)"
  have st': "expense_tbl ?st' = [lunch, rent, \<lparr>tid = 3, user_id = 2, description = ''Lunch'',
      amount = Finite (25 / 2), category = ''Food'',
      date = \<lparr>year = 2024, month = 3, day = 15\<rparr>, created_at = 9\<rparr>]"
    "income_tbl ?st' = [salary]"
    by (simp_all add: add_expense_def lunch_form_def blank_def sample_env_def sample_store_def
        bob_def new_key_def lunch_def rent_def)
  have o: "owned_part alice sample_store = owned_part alice ?st'"
    unfolding owned_part_def st'
    by (simp add: sample_store_def alice_def lunch_def rent_def salary_def)
  have d: "expense_tbl ?st' \<noteq> expense_tbl sample_store"
    unfolding st' by (simp add: sample_store_def)
  have x: "expenses sample_env sample_store alice =
      Render (Expenses_html [lunch] (Finite (25 / 2)) [(''Food'', Finite (25 / 2))]) []"
    by (simp add: expenses_def sample_store_def alice_def lunch_def rent_def order_by_date_desc_def
        categories_of_def sample_env_def sample_add_zero)
  note t = owner_isolation [of sample_env sample_store alice ?st' 2026 None]
  from t x have "\<forall>t\<in>set [lunch]. user_id t = uid alice"
    by blast
  then have l: "user_id lunch = uid alice"
    by simp
  from t o have e: "expenses sample_env ?st' alice = expenses sample_env sample_store alice"
    and f: "financial_dashboard sample_env ?st' alice 2026 None
          = financial_dashboard sample_env sample_store alice 2026 None"
    by simp_all
  from o d x l e f show ?thesis
    by (intro conjI)
qed

section \<open>Adding a record\<close>

text \<open>
  What the two add handlers do on every input: a rejected input is answered by an error
  message and changes nothing; any other input has its four fields present and parsed, and
  is inserted with exactly these values and the acting user as owner, unless the driver
  writes its amount as \<^verbatim>\<open>NULL\<close>, when the commit fails and nothing is inserted.
\<close>

lemma add_record_outcomes:
  "(rejected_input ev form \<longrightarrow>
      (\<exists>msg. add_expense ev now st u form = (Redirect To_expenses [(Danger, msg)], st))
    \<and> (\<exists>msg. add_income ev now st u form = (Redirect To_incomes [(Danger, msg)], st)))
   \<and> (\<not> rejected_input ev form \<longrightarrow>
      (\<exists>d a c ds v dt.
          form = \<lparr>f_description = Some d, f_amount = Some a, f_category = Some c, f_date = Some ds\<rparr>
        \<and> py_float ev a = Some v \<and> strptime_ymd ev ds = Some dt
        \<and> add_expense ev now st u form =
            (if db_null_float ev v then (Unhandled IntegrityError, st)
             else (Redirect To_expenses [(Success, Record_added)],
                   st\<lparr>expense_tbl := expense_tbl st @
                        [\<lparr>tid = new_key (map tid (expense_tbl st)), user_id = uid u, description = d,
                          amount = v, category = c, date = dt, created_at = now\<rparr>]\<rparr>))
        \<and> add_income ev now st u form =
            (if db_null_float ev v then (Unhandled IntegrityError, st)
             else (Redirect To_incomes [(Success, Record_added)],
                   st\<lparr>income_tbl := income_tbl st @
                        [\<lparr>tid = new_key (map tid (income_tbl st)), user_id = uid u, description = d,
                          amount = v, category = c, date = dt, created_at = now\<rparr>]\<rparr>))))"
proof (intro conjI impI)
  assume r: "rejected_input ev form"
  then show "\<exists>msg. add_expense ev now st u form = (Redirect To_expenses [(Danger, msg)], st)"
    by (auto simp: rejected_input_def add_expense_def blank_def split: option.splits)
  from r show "\<exists>msg. add_income ev now st u form = (Redirect To_incomes [(Danger, msg)], st)"
    by (auto simp: rejected_input_def add_income_def blank_def split: option.splits)
next
  assume r: "\<not> rejected_input ev form"
  obtain d0 a0 c0 ds0 where form: "form = \<lparr>f_description = d0, f_amount = a0, f_category = c0, f_date = ds0\<rparr>"
    by (cases form) auto
  from r obtain d a c ds v dt where
    f: "d0 = Some d" "a0 = Some a" "c0 = Some c" "ds0 = Some ds"
    and ne: "d \<noteq> []" "a \<noteq> []" "c \<noteq> []" "ds \<noteq> []"
    and p: "py_float ev a = Some v" "\<not> le_zero v" "strptime_ymd ev ds = Some dt"
    unfolding form by (auto simp: rejected_input_def blank_def split: option.splits)
  show "\<exists>d a c ds v dt.
          form = \<lparr>f_description = Some d, f_amount = Some a, f_category = Some c, f_date = Some ds\<rparr>
        \<and> py_float ev a = Some v \<and> strptime_ymd ev ds = Some dt
        \<and> add_expense ev now st u form =
            (if db_null_float ev v then (Unhandled IntegrityError, st)
             else (Redirect To_expenses [(Success, Record_added)],
                   st\<lparr>expense_tbl := expense_tbl st @
                        [\<lparr>tid = new_key (map tid (expense_tbl st)), user_id = uid u, description = d,
                          amount = v, category = c, date = dt, created_at = now\<rparr>]\<rparr>))
        \<and> add_income ev now st u form =
            (if db_null_float ev v then (Unhandled IntegrityError, st)
             else (Redirect To_incomes [(Success, Record_added)],
                   st\<lparr>income_tbl := income_tbl st @
                        [\<lparr>tid = new_key (map tid (income_tbl st)), user_id = uid u, description = d,
                          amount = v, category = c, date = dt, created_at = now\<rparr>]\<rparr>))"
    apply (rule exI [of _ d], rule exI [of _ a], rule exI [of _ c], rule exI [of _ ds],
           rule exI [of _ v], rule exI [of _ dt])
    using ne p by (simp add: form f add_expense_def add_income_def blank_def)
qed

text \<open>
  Claim C3. The claim says that \<^verbatim>\<open>add_expense\<close> answers every input either with an error
  message, leaving the store unchanged, or by inserting the record. The code does not: the
  amount \<^verbatim>\<open>nan\<close> parses, is not \<^verbatim>\<open><= 0\<close> and so passes the validation, and on the default
  store the commit of the row then raises \<^verbatim>\<open>IntegrityError\<close>, which \<^verbatim>\<open>except ValueError\<close>
  does not catch. There is no message and no insertion.
\<close>

theorem add_expense_nan_unhandled:
  "\<not> rejected_input sample_env nan_amount_form
   \<and> add_expense sample_env 9 sample_store alice nan_amount_form =
       (Unhandled IntegrityError, sample_store)
   \<and> handle sample_env sample_clock (Post_expenses_add nan_amount_form) (sample_store, Some 1) =
       (Unhandled IntegrityError, sample_store, Some 1)"
proof -
  have c: "current_user sample_store (Some (Suc 0)) = Some alice"
    by (simp add: current_user_def get_user_def sample_store_def alice_def)
  have a: "add_expense sample_env n sample_store u nan_amount_form =
       (Unhandled IntegrityError, sample_store)" for n u
    by (simp add: add_expense_def nan_amount_form_def blank_def sample_env_def)
  have r: "\<not> rejected_input sample_env nan_amount_form"
    by (simp add: rejected_input_def nan_amount_form_def blank_def sample_env_def)
  show ?thesis
    by (simp add: r a login_required_def c)
qed

section \<open>The ownership guard\<close>






section \<open>Editing a record\<close>

text \<open>
  What the edit handlers do for the owner of the row: with the four fields present,
  amount and date parsed and an amount that the driver can write, all four columns are
  overwritten, whatever the values; a \<^verbatim>\<open>ValueError\<close> of \<^verbatim>\<open>float\<close> or \<^verbatim>\<open>strptime\<close> is
  answered by the error message and changes nothing.
\<close>

lemma edit_expense_overwrites:
  assumes "get_or_404 ev (expense_tbl st) i = Inr t" and "user_id t = uid u"
    and "form = \<lparr>f_description = Some d, f_amount = Some a, f_category = Some c, f_date = Some ds\<rparr>"
    and "py_float ev a = Some v" and "strptime_ymd ev ds = Some dt" and "\<not> db_null_float ev v"
  shows "edit_expense ev st u i form =
     (Redirect To_expenses [(Success, Record_updated)],
      st\<lparr>expense_tbl := update_txn (expense_tbl st) i d v c dt\<rparr>)"
  using assms by (simp add: edit_expense_def)

lemma edit_income_overwrites:
  assumes "get_or_404 ev (income_tbl st) i = Inr t" and "user_id t = uid u"
    and "form = \<lparr>f_description = Some d, f_amount = Some a, f_category = Some c, f_date = Some ds\<rparr>"
    and "py_float ev a = Some v" and "strptime_ymd ev ds = Some dt" and "\<not> db_null_float ev v"
  shows "edit_income ev st u i form =
     (Redirect To_incomes [(Success, Record_updated)],
      st\<lparr>income_tbl := update_txn (income_tbl st) i d v c dt\<rparr>)"
  using assms by (simp add: edit_income_def)

lemma edit_rejects_value_errors:
  assumes "get_or_404 ev (expense_tbl st) i = Inr t" and "user_id t = uid u"
    and "f_amount form = Some a" and "f_date form = Some ds"
    and "py_float ev a = None \<or> strptime_ymd ev ds = None"
  shows "edit_expense ev st u i form =
     (Redirect To_expenses [(Danger, Invalid_value_or_date)], st)"
  using assms by (auto simp: edit_expense_def split: option.splits)

text \<open>
  Claim C4. The claim says that \<^verbatim>\<open>edit_expense\<close> validates as \<^verbatim>\<open>add_expense\<close> does. The
  code does not: on the owner's edit of expense 1 with the amount \<^verbatim>\<open>-5\<close>, the edit
  handler stores the amount \<open>- 5\<close> and reports success, where the add handler refuses the
  same form.
\<close>

theorem edit_expense_commits_negative_amount:
  "edit_expense sample_env sample_store alice 1 negative_amount_form =
     (Redirect To_expenses [(Success, Record_updated)],
      sample_store\<lparr>expense_tbl := [lunch\<lparr>amount := Finite (- 5)\<rparr>, rent]\<rparr>)
   \<and> add_expense sample_env 9 sample_store alice negative_amount_form =
     (Redirect To_expenses [(Danger, Amount_not_positive)], sample_store)"
  by (simp add: edit_expense_def add_expense_def negative_amount_form_def sample_env_def
      sample_store_def get_or_404_def update_txn_def alice_def lunch_def rent_def blank_def)

text \<open>
  Claim C7. The claim says that no exception escapes a handler. On the owner's edit of
  expense 1 with a form that has no \<^verbatim>\<open>amount\<close> field, \<^verbatim>\<open>float(None)\<close> raises
  \<^verbatim>\<open>TypeError\<close>, which \<^verbatim>\<open>except ValueError\<close> does not catch; the add handler answers
  the same form with the required-fields message.
\<close>

theorem edit_expense_missing_field_unhandled:
  "handle sample_env sample_clock (Post_expenses_edit 1 missing_amount_form)
     (sample_store, Some 1) = (Unhandled TypeError, sample_store, Some 1)
   \<and> handle sample_env sample_clock (Post_expenses_add missing_amount_form)
     (sample_store, Some 1) =
       (Redirect To_expenses [(Danger, All_fields_required)], sample_store, Some 1)"
  by (simp add: login_required_def current_user_def get_user_def edit_expense_def add_expense_def
      missing_amount_form_def sample_store_def get_or_404_def sample_binds alice_def lunch_def
      rent_def blank_def)

section \<open>Registration\<close>

text \<open>
  Claim C8. When the email of a registration is already in the store, no account is
  created and the store is unchanged, so the account that holds the email keeps its
  \<open>password_hash\<close>; this holds for every request. The answer is the duplicate-email
  message when the request is a registration attempt that reaches the check: a POST of an
  anonymous visitor whose password equals its confirmation (the specification has the
  password mismatch checked before \<open>register\<close>). In the same way a username that is
  already in the store leaves the store unchanged, and is answered by the
  duplicate-username message when the email, which is checked first, is not taken.
\<close>

theorem register_duplicate:
  "((\<exists>a\<in>set (user_tbl st). Some (email a) = f_email form) \<longrightarrow>
        snd (register ev now st sess meth form) = st
      \<and> (current_user st sess = None \<and> meth = POST
           \<and> f_password form = f_confirm_password form \<longrightarrow>
         fst (register ev now st sess meth form) = Render Register_html [(Danger, Email_taken)]))
   \<and> ((\<exists>a\<in>set (user_tbl st). Some (username a) = f_username form) \<longrightarrow>
        snd (register ev now st sess meth form) = st
      \<and> (current_user st sess = None \<and> meth = POST
           \<and> f_password form = f_confirm_password form
           \<and> \<not> (\<exists>a\<in>set (user_tbl st). Some (email a) = f_email form) \<longrightarrow>
         fst (register ev now st sess meth form) = Render Register_html [(Danger, Username_taken)]))"
  by (auto simp: register_def find_None_iff split: option.splits)

theorem register_duplicate_witness:
  "(\<exists>a\<in>set (user_tbl sample_store). Some (email a) = f_email dup_email_form)
   \<and> current_user sample_store None = None
   \<and> f_password dup_email_form = f_confirm_password dup_email_form
   \<and> register sample_env 9 sample_store None POST dup_email_form =
       (Render Register_html [(Danger, Email_taken)], sample_store)
   \<and> (\<exists>a\<in>set (user_tbl sample_store). Some (username a) = f_username dup_username_form)
   \<and> f_password dup_username_form = f_confirm_password dup_username_form
   \<and> \<not> (\<exists>a\<in>set (user_tbl sample_store). Some (email a) = f_email dup_username_form)
   \<and> register sample_env 9 sample_store None POST dup_username_form =
       (Render Register_html [(Danger, Username_taken)], sample_store)"
proof -
  have e: "\<exists>a\<in>set (user_tbl sample_store). Some (email a) = f_email dup_email_form"
    by (simp add: sample_store_def alice_def dup_email_form_def)
  have n: "\<exists>a\<in>set (user_tbl sample_store). Some (username a) = f_username dup_username_form"
    by (simp add: sample_store_def bob_def dup_username_form_def)
  have ne: "\<not> (\<exists>a\<in>set (user_tbl sample_store). Some (email a) = f_email dup_username_form)"
    by (simp add: sample_store_def alice_def bob_def dup_username_form_def)
  have c: "current_user sample_store None = None"
    by (simp add: current_user_def)
  have p: "f_password dup_email_form = f_confirm_password dup_email_form"
    "f_password dup_username_form = f_confirm_password dup_username_form"
    by (simp_all add: dup_email_form_def dup_username_form_def)
  show ?thesis
    using e n ne c p
      register_duplicate [of sample_store dup_email_form sample_env 9 None POST]
      register_duplicate [of sample_store dup_username_form sample_env 9 None POST]
    by (metis prod.collapse)
qed

text \<open>
  Claim C10. Registration does not check for blank fields. An anonymous POST whose
  password equals its confirmation and whose username and email are not those of an
  existing account creates the account with the values as given, whatever they are; in
  particular when the username, the email or the password is the empty string. Only the
  password comparison and the two duplicate checks stand before the insertion.
\<close>

theorem register_without_blank_check:
  assumes "current_user st sess = None"
    and "f_username form = Some n" and "f_email form = Some e"
    and "f_password form = Some p" and "f_confirm_password form = Some p"
    and "\<forall>a\<in>set (user_tbl st). email a \<noteq> e \<and> username a \<noteq> n"
  shows "register ev now st sess POST form =
     (Redirect To_login [(Success, Account_created)],
      st\<lparr>user_tbl := user_tbl st @
           [\<lparr>uid = new_key (map uid (user_tbl st)), username = n, email = e,
             password_hash = generate_password_hash ev p, registered_at = now\<rparr>]\<rparr>)"
proof -
  have "find (\<lambda>a. Some (email a) = f_email form) (user_tbl st) = None"
    "find (\<lambda>a. Some (username a) = f_username form) (user_tbl st) = None"
    using assms by (auto simp: find_None_iff)
  then show ?thesis
    using assms by (simp add: register_def)
qed

theorem register_without_blank_check_witness:
  "current_user sample_store None = None
   \<and> list_all (\<lambda>a. email a \<noteq> [] \<and> username a \<noteq> []) (user_tbl sample_store)
   \<and> register sample_env 9 sample_store None POST empty_register_form =
     (Redirect To_login [(Success, Account_created)],
      sample_store\<lparr>user_tbl := [alice, bob,
             \<lparr>uid = 3, username = '''', email = '''',
             password_hash = ''salted:'', registered_at = 9\<rparr>]\<rparr>)"
proof -
  have c: "current_user sample_store None = None"
    by (simp add: current_user_def)
  have d: "\<forall>a\<in>set (user_tbl sample_store). email a \<noteq> [] \<and> username a \<noteq> []"
    by (simp add: sample_store_def alice_def bob_def)
  have f: "f_username empty_register_form = Some []" "f_email empty_register_form = Some []"
    "f_password empty_register_form = Some []" "f_confirm_password empty_register_form = Some []"
    by (simp_all add: empty_register_form_def)
  have k: "new_key [uid alice, uid bob] = 3"
    "generate_password_hash sample_env [] = ''salted:''"
    "user_tbl sample_store = [alice, bob]"
    by (simp_all add: new_key_def sample_store_def alice_def bob_def sample_env_def)
  show ?thesis
    using c d register_without_blank_check [OF c f d, of sample_env 9]
    by (simp add: k list_all_iff)
qed

section \<open>The login gate\<close>

text \<open>
  Claim C9. In every state of store and session, a protected request (dashboard, logout,
  the expense and income routes, the financial dashboard) made while no user is
  authenticated is answered by the redirect to the login page, with the requested route
  kept, and leaves store and session as they were: the handler does not run. A login
  request made while a user is authenticated is answered by the redirect to the
  dashboard, whatever the form holds, and leaves store and session as they were: the
  credentials are not looked at and the identity does not change.
\<close>

theorem auth_gate:
  "(protected req \<and> current_user st sess = None \<longrightarrow>
      (\<exists>r. handle ev ck req (st, sess) =
              (Redirect (To_login_next r) [(Message, Please_log_in)], st, sess)))
   \<and> (current_user st sess \<noteq> None \<longrightarrow>
      handle ev ck (Req_login meth form) (st, sess) = (Redirect To_dashboard [], st, sess))"
  by (cases req) (auto simp: login_required_def login_def)

theorem auth_gate_witness:
  "protected (Post_expenses_add lunch_form) \<and> current_user sample_store None = None
   \<and> handle sample_env sample_clock (Post_expenses_add lunch_form) (sample_store, None) =
       (Redirect (To_login_next R_expenses_add) [(Message, Please_log_in)], sample_store, None)
   \<and> current_user sample_store (Some 1) \<noteq> None
   \<and> handle sample_env sample_clock
        (Req_login POST \<lparr>l_email = Some ''bob@example.org'', l_password = Some ''builder'', l_next = None\<rparr>)
        (sample_store, Some 1) = (Redirect To_dashboard [], sample_store, Some 1)"
proof -
  have a: "protected (Post_expenses_add lunch_form)" "current_user sample_store None = None"
    by (simp_all add: current_user_def)
  have b: "current_user sample_store (Some 1) \<noteq> None"
    by (simp add: current_user_def get_user_def sample_store_def alice_def)
  from a auth_gate [of "Post_expenses_add lunch_form" sample_store None sample_env "sample_clock"]
  obtain r where "handle sample_env sample_clock (Post_expenses_add lunch_form) (sample_store, None) =
       (Redirect (To_login_next r) [(Message, Please_log_in)], sample_store, None)"
    by blast
  then have 1: "handle sample_env sample_clock (Post_expenses_add lunch_form) (sample_store, None) =
       (Redirect (To_login_next R_expenses_add) [(Message, Please_log_in)], sample_store, None)"
    by (simp add: login_required_def current_user_def)
  show ?thesis
    using a b 1 auth_gate [of _ sample_store "Some 1" sample_env "sample_clock" POST]
    by blast
qed

end
